theory Spec2Isabelle
  imports Main
begin

section \<open>Data model of restAPI.py\<close>

text \<open>
  A \<open>datetime\<close> built by \<open>strptime(s, '%Y-%m-%d')\<close> is a calendar date at midnight. It is
  represented by its proleptic Gregorian day number (\<open>toordinal\<close>), which for a
  \<open>datetime\<close> lies between 1 (0001-01-01) and \<open>max_ordinal\<close> (9999-12-31); the
  comparison of two datetimes is the comparison of their day numbers.
  \<open>strftime('%Y-%m-%d')\<close> prints that date again, so a request carries the day number as
  well. The development starts after the two \<open>strptime\<close> calls of \<open>get_paginated_data\<close>,
  with the dates they return.
\<close>

type_synonym date = int

definition is_leap :: "int \<Rightarrow> bool" where
  "is_leap y = (y mod 4 = 0 \<and> (y mod 100 \<noteq> 0 \<or> y mod 400 = 0))"

definition days_before_year :: "int \<Rightarrow> int" where
  "days_before_year y = (let y1 = y - 1 in y1 * 365 + y1 div 4 - y1 div 100 + y1 div 400)"

definition days_before_month :: "int \<Rightarrow> nat \<Rightarrow> int" where
  "days_before_month y m =
     [0, 31, 59, 90, 120, 151, 181, 212, 243, 273, 304, 334] ! (m - 1)
     + (if m > 2 \<and> is_leap y then 1 else 0)"

text \<open>The day number of the date \<open>y-m-d\<close> (for \<open>1 \<le> m \<le> 12\<close>), as \<open>datetime.toordinal\<close>
  computes it.\<close>

definition ymd :: "int \<Rightarrow> nat \<Rightarrow> nat \<Rightarrow> date" where
  "ymd y m d = days_before_year y + days_before_month y m + int d"

definition max_ordinal :: date where
  "max_ordinal = 3652059"

text \<open>
  Exceptions, by what the program's handlers tell apart: \<open>getattr\<close> with a default
  catches \<open>AttributeError\<close> only; \<open>except Exception\<close> catches everything but the
  exceptions that are not derived from \<open>Exception\<close> (\<open>KeyboardInterrupt\<close>, \<open>SystemExit\<close>,
  \<open>GeneratorExit\<close>), here \<open>BaseException\<close>. Each carries its text \<open>str(e)\<close>.
\<close>

datatype exn =
    AttributeError string
  | OverflowError string
  | Exception string
  | BaseException string

fun is_Exception :: "exn \<Rightarrow> bool" where
  "is_Exception (BaseException s) = False"
| "is_Exception e = True"

fun str :: "exn \<Rightarrow> string" where
  "str (AttributeError s) = s"
| "str (OverflowError s) = s"
| "str (Exception s) = s"
| "str (BaseException s) = s"

text \<open>\<open>d + timedelta(days=n)\<close>: the sum, or \<open>OverflowError\<close> when it is not a date.\<close>

definition add_days :: "date \<Rightarrow> int \<Rightarrow> exn + date" where
  "add_days d n =
     (if 1 \<le> d + n \<and> d + n \<le> max_ordinal then Inr (d + n)
      else Inl (OverflowError ''date value out of range''))"

text \<open>Running one step after another: the first exception ends the computation.\<close>

definition and_then :: "exn + 'a \<Rightarrow> ('a \<Rightarrow> exn + 'b) \<Rightarrow> exn + 'b" where
  "and_then r f = (case r of Inl e \<Rightarrow> Inl e | Inr v \<Rightarrow> f v)"

text \<open>
  A raw aggregate of the provider client is an object; reading one of its attributes
  gives the value or raises (\<open>AttributeError\<close> when the object has no such attribute).
  Prices and volumes are only copied, never computed with: their type is a parameter.
\<close>

record 'p agg =
  agg_timestamp :: "exn + int"
  agg_open :: "exn + 'p"
  agg_high :: "exn + 'p"
  agg_low :: "exn + 'p"
  agg_close :: "exn + 'p"
  agg_volume :: "exn + 'p"
  agg_vwap :: "exn + 'p option"
  agg_transactions :: "exn + int option"

text \<open>\<open>getattr(a, name, dflt)\<close>, given what reading the attribute does.\<close>

definition getattr :: "exn + 'a \<Rightarrow> 'a \<Rightarrow> exn + 'a" where
  "getattr r dflt = (case r of Inl (AttributeError s) \<Rightarrow> Inr dflt | _ \<Rightarrow> r)"

text \<open>
  One row of the DataFrame: the index \<open>timestamp\<close> and the seven columns. A pandas
  \<open>Timestamp\<close> is represented by the count of milliseconds it denotes. A DataFrame is the
  list of its rows, in order; \<open>pd.DataFrame()\<close> is the empty list, \<open>df.empty\<close> is
  \<open>df = []\<close>, and \<open>pd.concat\<close> appends the rows of the frames in order.
\<close>

record 'p bar =
  row_timestamp :: int
  row_open :: 'p
  row_high :: 'p
  row_low :: 'p
  row_close :: 'p
  row_volume :: 'p
  row_vwap :: "'p option"
  row_transactions :: "int option"

type_synonym 'p dataframe = "'p bar list"

text \<open>The arguments of one \<open>client.list_aggs\<close> call.\<close>

record request =
  req_ticker :: string
  req_multiplier :: int
  req_timespan :: string
  req_from :: date
  req_to :: date
  req_limit :: nat

text \<open>
  What the call gives once its iterator is consumed by \<open>list(...)\<close>: the aggregates, or
  the exception raised. The requests of one paginated fetch are pairwise different (lemma
  \<open>requests_distinct\<close> below), so a function of the request gives every chunk an outcome
  of its own.
\<close>

type_synonym 'p client = "request \<Rightarrow> exn + 'p agg list"

text \<open>
  What the program takes from outside its own text: the environment variable
  \<open>POLYGON_API_KEY\<close> (\<open>None\<close> when it is not set), the constructor \<open>RESTClient\<close> of the
  provider's library, which gives a client or raises, and \<open>pd.to_datetime(t, unit='ms')\<close>,
  which gives a \<open>Timestamp\<close> or raises. The two library functions are parameters: nothing
  is assumed about when they raise.
\<close>

record 'p env =
  api_key :: "string option"
  rest_client :: "string option \<Rightarrow> exn + 'p client"
  to_datetime :: "int \<Rightarrow> exn + int"

text \<open>What the program does to the outside: the lines it prints, the requests it sends and
  the seconds it sleeps, in the order they happen.\<close>

datatype message =
    Requesting string date date
  | NoDataReturned
  | ErrorFetching string
  | NotAuthorizedHelp
  | RateLimitHelp
  | FetchingChunk date date
  | Retrieved nat
  | Waiting

datatype event = Print message | ListAggs request | Sleep nat

section \<open>get_historical_data\<close>

text \<open>Python's \<open>p in s\<close> on strings.\<close>

fun is_substring :: "string \<Rightarrow> string \<Rightarrow> bool" where
  "is_substring p [] = (p = [])"
| "is_substring p (c # s) = (take (length p) (c # s) = p \<or> is_substring p s)"

text \<open>The dictionary made from one aggregate: its entries are evaluated in the order
  written, and the first exception ends it.\<close>

definition bar_of_agg :: "(int \<Rightarrow> exn + int) \<Rightarrow> 'p agg \<Rightarrow> exn + 'p bar" where
  "bar_of_agg to_dt a =
     and_then (and_then (agg_timestamp a) to_dt) (\<lambda>ts.
     and_then (agg_open a) (\<lambda>op.
     and_then (agg_high a) (\<lambda>hi.
     and_then (agg_low a) (\<lambda>lo.
     and_then (agg_close a) (\<lambda>cl.
     and_then (agg_volume a) (\<lambda>vol.
     and_then (getattr (agg_vwap a) None) (\<lambda>vw.
     and_then (getattr (agg_transactions a) None) (\<lambda>tr.
       Inr \<lparr> row_timestamp = ts, row_open = op, row_high = hi, row_low = lo,
             row_close = cl, row_volume = vol, row_vwap = vw,
             row_transactions = tr \<rparr>))))))))"

text \<open>The list comprehension over the aggregates.\<close>

fun build_rows :: "(int \<Rightarrow> exn + int) \<Rightarrow> 'p agg list \<Rightarrow> exn + 'p dataframe" where
  "build_rows to_dt [] = Inr []"
| "build_rows to_dt (a # as) =
     and_then (bar_of_agg to_dt a) (\<lambda>row.
     and_then (build_rows to_dt as) (\<lambda>rows. Inr (row # rows)))"

text \<open>The diagnostic lines of the \<open>except\<close> branch, for the text of the exception.\<close>

definition error_report :: "string \<Rightarrow> event list" where
  "error_report e =
     Print (ErrorFetching e) #
     (if is_substring ''NOT_AUTHORIZED'' e then [Print NotAuthorizedHelp]
      else if is_substring ''RATE_LIMIT'' e then [Print RateLimitHelp]
      else [])"

text \<open>
  The \<open>try\<close> statement around the request: an exception derived from \<open>Exception\<close> is
  reported and the empty frame returned; any other leaves the function. \<open>sent\<close> is what
  the body did before the exception.
\<close>

definition except_Exception :: "exn \<Rightarrow> event list \<Rightarrow> (exn + 'p dataframe) \<times> event list" where
  "except_Exception e sent =
     (if is_Exception e then (Inr [], sent @ error_report (str e)) else (Inl e, sent))"

text \<open>
  The function returns a frame or raises, and in either case has printed and sent what
  the second component lists. The client is built before the \<open>try\<close> statement, so an
  exception of the constructor leaves the function.
\<close>

definition get_historical_data ::
  "'p env \<Rightarrow> string \<Rightarrow> date \<Rightarrow> date \<Rightarrow> string \<Rightarrow> int \<Rightarrow> (exn + 'p dataframe) \<times> event list" where
  "get_historical_data env ticker start_date end_date timespan multiplier =
     (case rest_client env (api_key env) of
        Inl e \<Rightarrow> (Inl e, [])
      | Inr client \<Rightarrow>
          (let req = \<lparr> req_ticker = ticker, req_multiplier = multiplier,
                       req_timespan = timespan, req_from = start_date, req_to = end_date,
                       req_limit = 50000 \<rparr>;
               sent = [Print (Requesting ticker start_date end_date), ListAggs req]
           in case client req of
                Inl e \<Rightarrow> except_Exception e sent
              | Inr aggs \<Rightarrow>
                  if aggs = [] then (Inr [], sent @ [Print NoDataReturned])
                  else (case build_rows (to_datetime env) aggs of
                          Inl e \<Rightarrow> except_Exception e sent
                        | Inr df \<Rightarrow> (Inr df, sent))))"

section \<open>get_paginated_data\<close>

definition chunk_days :: "string \<Rightarrow> nat" where
  "chunk_days timespan = (if timespan = ''minute'' then 7 else 30)"

text \<open>The variables of the loop, and what has happened so far.\<close>

record 'p fetch_state =
  all_data :: "'p dataframe list"
  current_start :: date
  out :: "event list"

text \<open>
  One pass through the body of the \<open>while\<close> loop: the exception that ended it, if one
  did, and the state it left. Nothing in \<open>get_paginated_data\<close> catches an exception, so
  one raised here ends the whole fetch.
\<close>

definition loop_body ::
  "'p env \<Rightarrow> string \<Rightarrow> string \<Rightarrow> int \<Rightarrow> nat \<Rightarrow> date \<Rightarrow> 'p fetch_state
     \<Rightarrow> exn option \<times> 'p fetch_state" where
  "loop_body env ticker timespan multiplier cdays end_dt st =
     (case add_days (current_start st) (int cdays) of
        Inl e \<Rightarrow> (Some e, st)
      | Inr current_end \<Rightarrow>
          (let current_end = (if current_end > end_dt then end_dt else current_end);
               chunk_start = current_start st;
               chunk_end = current_end;
               (fetched, evs) =
                  get_historical_data env ticker chunk_start chunk_end timespan multiplier;
               st1 = st\<lparr> out := out st @ [Print (FetchingChunk chunk_start chunk_end)] @ evs \<rparr>
           in case fetched of
                Inl e \<Rightarrow> (Some e, st1)
              | Inr chunk_df \<Rightarrow>
                  (let st2 = (if chunk_df \<noteq> []
                              then st1\<lparr> all_data := all_data st1 @ [chunk_df],
                                        out := out st1 @ [Print (Retrieved (length chunk_df))] \<rparr>
                              else st1)
                   in case add_days current_end 1 of
                        Inl e \<Rightarrow> (Some e, st2)
                      | Inr next_start \<Rightarrow>
                          (None, st2\<lparr> current_start := next_start,
                                      out := out st2 @ (if next_start \<le> end_dt
                                                        then [Print Waiting, Sleep 12]
                                                        else []) \<rparr>))))"

function pagination_loop ::
  "'p env \<Rightarrow> string \<Rightarrow> string \<Rightarrow> int \<Rightarrow> nat \<Rightarrow> date \<Rightarrow> 'p fetch_state
     \<Rightarrow> exn option \<times> 'p fetch_state" where
  "pagination_loop env ticker timespan multiplier cdays end_dt st =
     (if current_start st \<le> end_dt
      then (let r = loop_body env ticker timespan multiplier cdays end_dt st
            in if fst r = None
               then pagination_loop env ticker timespan multiplier cdays end_dt (snd r)
               else r)
      else (None, st))"
  by pat_completeness auto
termination
  by (relation "measure (\<lambda>(env, ticker, timespan, multiplier, cdays, end_dt, st).
                   nat (end_dt + 1 - current_start st))")
     (auto simp: loop_body_def add_days_def Let_def split: prod.splits sum.splits if_splits)

declare pagination_loop.simps [simp del]

definition get_paginated_data ::
  "'p env \<Rightarrow> string \<Rightarrow> date \<Rightarrow> date \<Rightarrow> string \<Rightarrow> int \<Rightarrow> (exn + 'p dataframe) \<times> event list" where
  "get_paginated_data env ticker start_dt end_dt timespan multiplier =
     (let (raised, st) =
            pagination_loop env ticker timespan multiplier (chunk_days timespan) end_dt
              \<lparr> all_data = [], current_start = start_dt, out = [] \<rparr>
      in case raised of
           Some e \<Rightarrow> (Inl e, out st)
         | None \<Rightarrow> (Inr (if all_data st \<noteq> [] then concat (all_data st) else []), out st))"

section \<open>Reading the record of a fetch\<close>

text \<open>The requests sent, in order, and the date range of each: the chunks.\<close>

fun requests :: "event list \<Rightarrow> request list" where
  "requests [] = []"
| "requests (ListAggs r # es) = r # requests es"
| "requests (Print m # es) = requests es"
| "requests (Sleep n # es) = requests es"

definition chunk_ranges :: "event list \<Rightarrow> (date \<times> date) list" where
  "chunk_ranges es = map (\<lambda>r. (req_from r, req_to r)) (requests es)"

text \<open>The sleeps performed, in order, each with its length in seconds.\<close>

fun sleeps :: "event list \<Rightarrow> nat list" where
  "sleeps [] = []"
| "sleeps (Sleep n # es) = n # sleeps es"
| "sleeps (ListAggs r # es) = sleeps es"
| "sleeps (Print m # es) = sleeps es"

text \<open>
  \<open>waits k es\<close> lists, for every request of \<open>es\<close> in order, how many sleeps come
  between the request before it (or the start, with \<open>k\<close> sleeps already counted) and the
  request itself.
\<close>

fun waits :: "nat \<Rightarrow> event list \<Rightarrow> nat list" where
  "waits k [] = []"
| "waits k (Sleep n # es) = waits (Suc k) es"
| "waits k (ListAggs r # es) = k # waits 0 es"
| "waits k (Print m # es) = waits k es"

text \<open>Each chunk starts the day after the chunk before it ends.\<close>

fun contiguous :: "(date \<times> date) list \<Rightarrow> bool" where
  "contiguous (c # d # cs) = (fst d = snd c + 1 \<and> contiguous (d # cs))"
| "contiguous cs = True"

text \<open>The chunks the loop goes through from \<open>cur\<close> on when no pass raises, as a list.\<close>

function chunks :: "nat \<Rightarrow> date \<Rightarrow> date \<Rightarrow> (date \<times> date) list" where
  "chunks cdays cur end_dt =
     (if cur \<le> end_dt
      then (let current_end = (if cur + int cdays > end_dt then end_dt else cur + int cdays)
            in (cur, current_end) # chunks cdays (current_end + 1) end_dt)
      else [])"
  by pat_completeness auto
termination
  by (relation "measure (\<lambda>(cdays, cur, end_dt). nat (end_dt + 1 - cur))") auto

declare chunks.simps [simp del]

definition chunk_request :: "string \<Rightarrow> string \<Rightarrow> int \<Rightarrow> date \<times> date \<Rightarrow> request" where
  "chunk_request ticker timespan multiplier c =
     \<lparr> req_ticker = ticker, req_multiplier = multiplier, req_timespan = timespan,
       req_from = fst c, req_to = snd c, req_limit = 50000 \<rparr>"

text \<open>The frame one chunk contributes, and what a pass that does not raise does to the
  outside for it.\<close>

definition chunk_frame :: "'p env \<Rightarrow> string \<Rightarrow> string \<Rightarrow> int \<Rightarrow> date \<times> date \<Rightarrow> 'p dataframe" where
  "chunk_frame env ticker timespan multiplier c =
     (case fst (get_historical_data env ticker (fst c) (snd c) timespan multiplier) of
        Inl e \<Rightarrow> [] | Inr df \<Rightarrow> df)"

definition chunk_events ::
  "'p env \<Rightarrow> string \<Rightarrow> string \<Rightarrow> int \<Rightarrow> date \<Rightarrow> date \<times> date \<Rightarrow> event list" where
  "chunk_events env ticker timespan multiplier end_dt c =
     [Print (FetchingChunk (fst c) (snd c))]
     @ snd (get_historical_data env ticker (fst c) (snd c) timespan multiplier)
     @ (if chunk_frame env ticker timespan multiplier c \<noteq> []
        then [Print (Retrieved (length (chunk_frame env ticker timespan multiplier c)))] else [])
     @ (if snd c + 1 \<le> end_dt then [Print Waiting, Sleep 12] else [])"

text \<open>
  The rows a request brings: those of the aggregates the client answers with, when it
  answers with aggregates and every one of them becomes a row; none when the request or
  the making of the rows raises.
\<close>

definition answer_rows :: "'p env \<Rightarrow> request \<Rightarrow> 'p dataframe" where
  "answer_rows env req =
     (case rest_client env (api_key env) of
        Inl e \<Rightarrow> []
      | Inr client \<Rightarrow>
          (case client req of
             Inl e \<Rightarrow> []
           | Inr aggs \<Rightarrow>
               (case build_rows (to_datetime env) aggs of Inl e \<Rightarrow> [] | Inr df \<Rightarrow> df)))"

text \<open>The frames of the chunks of a fetch, in chunk order: for each request sent, the
  rows it brought.\<close>

definition chunk_frames :: "'p env \<Rightarrow> event list \<Rightarrow> 'p dataframe list" where
  "chunk_frames env es = map (answer_rows env) (requests es)"

section \<open>The swap in main\<close>

text \<open>Python's \<open>s < t\<close> on strings, and lines 270 to 272 of \<open>main\<close>, which compare the
  two date strings.\<close>

fun str_less :: "string \<Rightarrow> string \<Rightarrow> bool" where
  "str_less [] [] = False"
| "str_less [] (y # ys) = True"
| "str_less (x # xs) [] = False"
| "str_less (x # xs) (y # ys) =
     ((of_char x :: nat) < of_char y \<or> (x = y \<and> str_less xs ys))"

definition swap_dates :: "string \<Rightarrow> string \<Rightarrow> string \<times> string" where
  "swap_dates start_date end_date =
     (if str_less end_date start_date then (end_date, start_date) else (start_date, end_date))"

section \<open>Sample environments\<close>

text \<open>
  A constructor that raises without a key, as the provider's library does; a conversion
  that raises outside the range of a nanosecond \<open>Timestamp\<close>; an environment with a key
  and one without.
\<close>

definition polygon_rest_client :: "'p client \<Rightarrow> string option \<Rightarrow> exn + 'p client" where
  "polygon_rest_client client key =
     (case key of
        None \<Rightarrow> Inl (Exception ''Must specify env var POLYGON_API_KEY or pass api_key in constructor'')
      | Some k \<Rightarrow> Inr client)"

definition pandas_to_datetime :: "int \<Rightarrow> exn + int" where
  "pandas_to_datetime t =
     (if - 9223372036854 \<le> t \<and> t \<le> 9223372036854 then Inr t
      else Inl (Exception ''Out of bounds nanosecond timestamp''))"

definition sample_env :: "'p client \<Rightarrow> 'p env" where
  "sample_env client =
     \<lparr> api_key = Some ''key'', rest_client = polygon_rest_client client,
       to_datetime = pandas_to_datetime \<rparr>"

definition no_key_env :: "'p client \<Rightarrow> 'p env" where
  "no_key_env client =
     \<lparr> api_key = None, rest_client = polygon_rest_client client,
       to_datetime = pandas_to_datetime \<rparr>"

text \<open>Midnight (UTC) of a day, in milliseconds since 1970-01-01, whose day number is
  719163.\<close>

definition midnight_ms :: "date \<Rightarrow> int" where
  "midnight_ms d = (d - 719163) * 86400000"

text \<open>An aggregate with neither \<open>vwap\<close> nor \<open>transactions\<close>.\<close>

definition sample_agg :: "int \<Rightarrow> int agg" where
  "sample_agg t =
     \<lparr> agg_timestamp = Inr t, agg_open = Inr 100, agg_high = Inr 110, agg_low = Inr 90,
       agg_close = Inr 105, agg_volume = Inr 1000,
       agg_vwap = Inl (AttributeError ''object has no attribute vwap''),
       agg_transactions = Inl (AttributeError ''object has no attribute transactions'') \<rparr>"

text \<open>The row made from \<open>sample_agg t\<close> when \<open>t\<close> converts to itself.\<close>

definition sample_bar :: "int \<Rightarrow> int bar" where
  "sample_bar t =
     \<lparr> row_timestamp = t, row_open = 100, row_high = 110, row_low = 90, row_close = 105,
       row_volume = 1000, row_vwap = None, row_transactions = None \<rparr>"

text \<open>
  A client with no data at all; one that has a bar at the first midnight and one a
  minute later for every range asked; one that refuses every range starting on 2024-01-01
  and answers like the second otherwise; one whose only bar has a timestamp beyond the
  range of a \<open>Timestamp\<close>; and one that is interrupted from the keyboard.
\<close>

definition no_data_client :: "int client" where
  "no_data_client req = Inr []"

definition two_bar_client :: "int client" where
  "two_bar_client req =
     Inr [sample_agg (midnight_ms (req_from req)), sample_agg (midnight_ms (req_from req) + 60000)]"

definition unauthorized_first_client :: "int client" where
  "unauthorized_first_client req =
     (if req_from req = 738886 then Inl (Exception ''NOT_AUTHORIZED: upgrade your plan'')
      else two_bar_client req)"

definition far_future_client :: "int client" where
  "far_future_client req = Inr [sample_agg 100000000000000000]"

definition interrupted_client :: "int client" where
  "interrupted_client req = Inl (BaseException ''KeyboardInterrupt'')"

section \<open>Lemmas about the two functions\<close>

lemmas ymd_eval = ymd_def days_before_year_def days_before_month_def is_leap_def

lemma requests_append: "requests (xs @ ys) = requests xs @ requests ys"
  by (induction xs rule: requests.induct) auto

lemma sleeps_append: "sleeps (xs @ ys) = sleeps xs @ sleeps ys"
  by (induction xs rule: sleeps.induct) auto

lemma requests_error_report: "requests (error_report e) = []"
  by (simp add: error_report_def)

lemma sleeps_error_report: "sleeps (error_report e) = []"
  by (simp add: error_report_def)

lemma waits_error_report: "waits j (error_report e @ es) = waits j es"
  by (simp add: error_report_def)

text \<open>What a call of get_historical_data sends.\<close>

lemma requests_get_historical_data:
  "requests (snd (get_historical_data env ticker a b timespan multiplier)) =
     (case rest_client env (api_key env) of
        Inl e \<Rightarrow> [] | Inr client \<Rightarrow> [chunk_request ticker timespan multiplier (a, b)])"
  by (simp add: get_historical_data_def except_Exception_def chunk_request_def Let_def
      requests_append requests_error_report split: sum.splits)

lemma sleeps_get_historical_data:
  "sleeps (snd (get_historical_data env ticker a b timespan multiplier)) = []"
  by (simp add: get_historical_data_def except_Exception_def Let_def
      sleeps_append sleeps_error_report split: sum.splits)

lemma waits_get_historical_data:
  "waits j (snd (get_historical_data env ticker a b timespan multiplier) @ es) =
     (case rest_client env (api_key env) of
        Inl e \<Rightarrow> waits j es | Inr client \<Rightarrow> j # waits 0 es)"
  by (simp add: get_historical_data_def except_Exception_def Let_def
      waits_error_report split: sum.splits)

lemma get_historical_data_returned:
  assumes "fst (get_historical_data env ticker a b timespan multiplier) = Inr df"
  shows "\<exists>client. rest_client env (api_key env) = Inr client"
    and "df = answer_rows env (chunk_request ticker timespan multiplier (a, b))"
  using assms
  by (auto simp: get_historical_data_def except_Exception_def answer_rows_def
      chunk_request_def Let_def split: sum.splits if_splits)

lemma get_historical_data_raised:
  assumes "fst (get_historical_data env ticker a b timespan multiplier) = Inl e"
  shows "rest_client env (api_key env) = Inl e \<or> \<not> is_Exception e"
  using assms
  by (auto simp: get_historical_data_def except_Exception_def Let_def
      split: sum.splits if_splits)

text \<open>One pass through the loop body.\<close>

lemma loop_body_continued:
  assumes "fst (loop_body env ticker timespan multiplier cdays end_dt st) = None"
    and "ce = (if current_start st + int cdays > end_dt then end_dt
               else current_start st + int cdays)"
  shows "out (snd (loop_body env ticker timespan multiplier cdays end_dt st)) =
           out st @ chunk_events env ticker timespan multiplier end_dt (current_start st, ce)"
    and "all_data (snd (loop_body env ticker timespan multiplier cdays end_dt st)) =
           all_data st @ filter (\<lambda>df. df \<noteq> [])
             [chunk_frame env ticker timespan multiplier (current_start st, ce)]"
    and "current_start (snd (loop_body env ticker timespan multiplier cdays end_dt st)) = ce + 1"
    and "\<exists>df. fst (get_historical_data env ticker (current_start st) ce timespan multiplier) = Inr df"
  using assms
  by (auto simp: loop_body_def add_days_def chunk_events_def chunk_frame_def Let_def
      split: sum.splits prod.splits if_splits)

lemma loop_body_fetch_raised:
  assumes "add_days (current_start st) (int cdays) = Inr d"
    and "ce = (if d > end_dt then end_dt else d)"
    and "get_historical_data env ticker (current_start st) ce timespan multiplier = (Inl e, evs)"
  shows "loop_body env ticker timespan multiplier cdays end_dt st =
           (Some e, st\<lparr> out := out st @ [Print (FetchingChunk (current_start st) ce)] @ evs \<rparr>)"
  using assms by (simp add: loop_body_def Let_def)

lemma loop_body_fetched:
  assumes "add_days (current_start st) (int cdays) = Inr d"
    and "ce = (if d > end_dt then end_dt else d)"
    and "get_historical_data env ticker (current_start st) ce timespan multiplier = (Inr df, evs)"
    and "B = [Print (FetchingChunk (current_start st) ce)] @ evs
             @ (if df \<noteq> [] then [Print (Retrieved (length df))] else [])"
  shows "out (snd (loop_body env ticker timespan multiplier cdays end_dt st)) =
           out st @ B @ (if fst (loop_body env ticker timespan multiplier cdays end_dt st) = None
                            \<and> ce + 1 \<le> end_dt
                         then [Print Waiting, Sleep 12] else [])"
  using assms
  by (cases "add_days ce 1")
     (auto simp: loop_body_def Let_def add_days_def split: if_splits)

lemma loop_body_raised:
  assumes "fst (loop_body env ticker timespan multiplier cdays end_dt st) = Some e"
    and "ce = (if current_start st + int cdays > end_dt then end_dt
               else current_start st + int cdays)"
  shows "\<exists>B. out (snd (loop_body env ticker timespan multiplier cdays end_dt st)) = out st @ B
           \<and> sleeps B = []
           \<and> (requests B = []
               \<or> requests B = [chunk_request ticker timespan multiplier (current_start st, ce)])
           \<and> (\<forall>j. waits j B = map (\<lambda>r. j) (requests B))"
proof (cases "add_days (current_start st) (int cdays)")
  case (Inl e')
  then have "snd (loop_body env ticker timespan multiplier cdays end_dt st) = st"
    by (simp add: loop_body_def)
  then show ?thesis by simp
next
  case (Inr d)
  then have d: "d = current_start st + int cdays"
    by (simp add: add_days_def split: if_splits)
  have ce: "ce = (if d > end_dt then end_dt else d)"
    using assms(2) d by simp
  obtain fetched evs
    where r: "get_historical_data env ticker (current_start st) ce timespan multiplier = (fetched, evs)"
    by (cases "get_historical_data env ticker (current_start st) ce timespan multiplier")
  let ?B0 = "[Print (FetchingChunk (current_start st) ce)] @ evs"
  have rq: "requests ?B0 = [] \<or>
            requests ?B0 = [chunk_request ticker timespan multiplier (current_start st, ce)]"
    using requests_get_historical_data[of env ticker "current_start st" ce timespan multiplier] r
    by (simp split: sum.splits)
  have sl: "sleeps ?B0 = []"
    using sleeps_get_historical_data[of env ticker "current_start st" ce timespan multiplier] r
    by simp
  have wt: "waits j (?B0 @ [Print m]) = map (\<lambda>r. j) (requests ?B0)"
           "waits j ?B0 = map (\<lambda>r. j) (requests ?B0)" for j m
    using waits_get_historical_data[of j env ticker "current_start st" ce timespan multiplier "[Print m]"]
      waits_get_historical_data[of j env ticker "current_start st" ce timespan multiplier "[]"]
      requests_get_historical_data[of env ticker "current_start st" ce timespan multiplier] r
    by (simp_all split: sum.splits)
  show ?thesis
  proof (cases fetched)
    case (Inl e')
    from loop_body_fetch_raised[OF Inr ce r[unfolded Inl]]
    have "out (snd (loop_body env ticker timespan multiplier cdays end_dt st)) = out st @ ?B0"
      by simp
    with rq sl wt(2) show ?thesis by blast
  next
    case fetched: (Inr df)
    let ?B1 = "?B0 @ (if df \<noteq> [] then [Print (Retrieved (length df))] else [])"
    have "out (snd (loop_body env ticker timespan multiplier cdays end_dt st)) = out st @ ?B1"
      using loop_body_fetched[OF Inr ce r[unfolded fetched] refl] assms(1) by simp
    moreover have "sleeps ?B1 = []"
      using sl by (simp add: sleeps_append del: append.simps)
    moreover have "requests ?B1 = requests ?B0"
      by (simp add: requests_append del: append.simps)
    moreover have "waits j ?B1 = map (\<lambda>r. j) (requests ?B0)" for j
      using wt[of j] by (cases "df = []") simp_all
    ultimately show ?thesis using rq by metis
  qed
qed

lemma loop_body_none:
  assumes "add_days (current_start st) (int cdays) = Inr d"
    and "ce = (if d > end_dt then end_dt else d)"
    and "get_historical_data env ticker (current_start st) ce timespan multiplier = (Inr df, evs)"
    and "add_days ce 1 = Inr n"
  shows "fst (loop_body env ticker timespan multiplier cdays end_dt st) = None"
  using assms by (simp add: loop_body_def Let_def)

lemma loop_body_does_not_raise:
  assumes "1 \<le> current_start st" and "current_start st \<le> end_dt"
    and "end_dt + int cdays \<le> max_ordinal" and "end_dt + 1 \<le> max_ordinal"
    and "\<And>b. \<exists>df. fst (get_historical_data env ticker (current_start st) b timespan multiplier) = Inr df"
  shows "fst (loop_body env ticker timespan multiplier cdays end_dt st) = None"
proof -
  define d where "d = current_start st + int cdays"
  define ce where "ce = (if d > end_dt then end_dt else d)"
  obtain df evs
    where r: "get_historical_data env ticker (current_start st) ce timespan multiplier = (Inr df, evs)"
    using assms(5)[of ce]
    by (cases "get_historical_data env ticker (current_start st) ce timespan multiplier") auto
  have a1: "add_days (current_start st) (int cdays) = Inr d"
    using assms(1-3) by (simp add: add_days_def d_def)
  have "1 \<le> ce" "ce \<le> end_dt"
    using assms(1,2) by (auto simp: ce_def d_def)
  then have a2: "add_days ce 1 = Inr (ce + 1)"
    using assms(4) by (simp add: add_days_def)
  from loop_body_none[OF a1 ce_def r a2] show ?thesis .
qed

text \<open>The list of chunks.\<close>

lemma chunks_stop: "end_dt < cur \<Longrightarrow> chunks cdays cur end_dt = []"
  by (subst chunks.simps) simp

lemma chunks_step:
  "cur \<le> end_dt \<Longrightarrow>
   chunks cdays cur end_dt =
     (cur, if cur + int cdays > end_dt then end_dt else cur + int cdays)
     # chunks cdays ((if cur + int cdays > end_dt then end_dt else cur + int cdays) + 1) end_dt"
  by (subst chunks.simps) (simp add: Let_def)

lemma chunks_bounds:
  "c \<in> set (chunks cdays cur end_dt) \<Longrightarrow>
     cur \<le> fst c \<and> fst c \<le> snd c \<and> snd c \<le> end_dt \<and> snd c - fst c \<le> int cdays"
proof (induction cdays cur end_dt rule: chunks.induct)
  case (1 cdays cur end_dt)
  show ?case
  proof (cases "cur \<le> end_dt")
    case True
    let ?ce = "if cur + int cdays > end_dt then end_dt else cur + int cdays"
    from "1.prems" True
    consider "c = (cur, ?ce)" | "c \<in> set (chunks cdays (?ce + 1) end_dt)"
      by (auto simp: chunks_step[OF True] simp del: set_ConsD)
    then show ?thesis
    proof cases
      case 1
      with True show ?thesis by auto
    next
      case 2
      from "1.IH"[OF True refl 2] True show ?thesis by (auto split: if_splits)
    qed
  next
    case False
    with "1.prems" show ?thesis by (simp add: chunks_stop)
  qed
qed

lemma chunks_contiguous: "contiguous (chunks cdays cur end_dt)"
proof (induction cdays cur end_dt rule: chunks.induct)
  case (1 cdays cur end_dt)
  show ?case
  proof (cases "cur \<le> end_dt")
    case True
    let ?ce = "if cur + int cdays > end_dt then end_dt else cur + int cdays"
    have ih: "contiguous (chunks cdays (?ce + 1) end_dt)"
      using "1.IH"[OF True refl] .
    show ?thesis
    proof (cases "?ce + 1 \<le> end_dt")
      case next_le: True
      show ?thesis
        using ih by (subst chunks_step[OF True], subst chunks_step[OF next_le])
          (subst (asm) chunks_step[OF next_le], simp)
    next
      case False
      then have "chunks cdays (?ce + 1) end_dt = []" by (simp add: chunks_stop)
      then show ?thesis by (subst chunks_step[OF True]) simp
    qed
  next
    case False
    then show ?thesis by (simp add: chunks_stop)
  qed
qed

lemma chunks_ascending: "sorted_wrt (\<lambda>c d. snd c < fst d) (chunks cdays cur end_dt)"
proof (induction cdays cur end_dt rule: chunks.induct)
  case (1 cdays cur end_dt)
  show ?case
  proof (cases "cur \<le> end_dt")
    case True
    let ?ce = "if cur + int cdays > end_dt then end_dt else cur + int cdays"
    have ih: "sorted_wrt (\<lambda>c d. snd c < fst d) (chunks cdays (?ce + 1) end_dt)"
      using "1.IH"[OF True refl] .
    have "?ce < fst d" if "d \<in> set (chunks cdays (?ce + 1) end_dt)" for d
      using chunks_bounds[OF that] by linarith
    with ih show ?thesis
      by (subst chunks_step[OF True]) simp
  next
    case False
    then show ?thesis by (simp add: chunks_stop)
  qed
qed

lemma chunks_union:
  "(\<Union>c \<in> set (chunks cdays cur end_dt). {fst c..snd c}) = {cur..end_dt}"
proof (induction cdays cur end_dt rule: chunks.induct)
  case (1 cdays cur end_dt)
  show ?case
  proof (cases "cur \<le> end_dt")
    case True
    let ?ce = "if cur + int cdays > end_dt then end_dt else cur + int cdays"
    have ih: "(\<Union>c \<in> set (chunks cdays (?ce + 1) end_dt). {fst c..snd c}) = {?ce + 1..end_dt}"
      using "1.IH"[OF True refl] .
    have "cur \<le> ?ce" "?ce \<le> end_dt" using True by auto
    then have "{cur..?ce} \<union> {?ce + 1..end_dt} = {cur..end_dt}" by auto
    with ih show ?thesis
      by (subst chunks_step[OF True]) simp
  next
    case False
    then show ?thesis by (simp add: chunks_stop)
  qed
qed

lemma chunks_first: "cur \<le> end_dt \<Longrightarrow> fst (hd (chunks cdays cur end_dt)) = cur"
  by (simp add: chunks_step)

lemma chunks_last:
  "cur \<le> end_dt \<Longrightarrow> snd (last (chunks cdays cur end_dt)) = end_dt"
proof (induction cdays cur end_dt rule: chunks.induct)
  case (1 cdays cur end_dt)
  let ?ce = "if cur + int cdays > end_dt then end_dt else cur + int cdays"
  have True: "cur \<le> end_dt" by fact
  show ?case
  proof (cases "?ce + 1 \<le> end_dt")
    case next_le: True
    then have "chunks cdays (?ce + 1) end_dt \<noteq> []" by (simp add: chunks_step)
    with "1.IH"[OF True refl next_le] show ?thesis
      by (subst chunks_step[OF True]) simp
  next
    case False
    then have "chunks cdays (?ce + 1) end_dt = []" by (simp add: chunks_stop)
    moreover from False True have "?ce = end_dt" by (auto split: if_splits)
    ultimately show ?thesis by (subst chunks_step[OF True]) simp
  qed
qed

lemma chunks_minute_example:
  "chunks 7 738886 738905 = [(738886, 738893), (738894, 738901), (738902, 738905)]"
  by (simp add: chunks_step chunks_stop)

lemma chunks_hour_example:
  "chunks 30 738886 738917 = [(738886, 738916), (738917, 738917)]"
  by (simp add: chunks_step chunks_stop)

lemma chunks_starts_ascending:
  "sorted_wrt (\<lambda>c d. fst c < fst d) (chunks cdays cur end_dt)"
proof (rule sorted_wrt_mono_rel[OF _ chunks_ascending])
  fix c d
  assume "c \<in> set (chunks cdays cur end_dt)" and "snd c < fst d"
  with chunks_bounds[of c cdays cur end_dt] show "fst c < fst d" by linarith
qed

text \<open>The loop.\<close>

lemma pagination_loop_stop:
  "end_dt < current_start st \<Longrightarrow>
   pagination_loop env ticker timespan multiplier cdays end_dt st = (None, st)"
  by (subst pagination_loop.simps) simp

lemma pagination_loop_step:
  "current_start st \<le> end_dt \<Longrightarrow>
   pagination_loop env ticker timespan multiplier cdays end_dt st =
     (if fst (loop_body env ticker timespan multiplier cdays end_dt st) = None
      then pagination_loop env ticker timespan multiplier cdays end_dt
             (snd (loop_body env ticker timespan multiplier cdays end_dt st))
      else loop_body env ticker timespan multiplier cdays end_dt st)"
  by (subst pagination_loop.simps) (simp add: Let_def)

lemma loop_returned:
  "fst (pagination_loop env ticker timespan multiplier cdays end_dt st) = None \<Longrightarrow>
   out (snd (pagination_loop env ticker timespan multiplier cdays end_dt st)) =
     out st @ concat (map (chunk_events env ticker timespan multiplier end_dt)
                        (chunks cdays (current_start st) end_dt))
   \<and> all_data (snd (pagination_loop env ticker timespan multiplier cdays end_dt st)) =
     all_data st @ filter (\<lambda>df. df \<noteq> [])
       (map (chunk_frame env ticker timespan multiplier) (chunks cdays (current_start st) end_dt))
   \<and> (\<forall>c \<in> set (chunks cdays (current_start st) end_dt).
         \<exists>df. fst (get_historical_data env ticker (fst c) (snd c) timespan multiplier) = Inr df)"
proof (induction env ticker timespan multiplier cdays end_dt st rule: pagination_loop.induct)
  case (1 env ticker timespan multiplier cdays end_dt st)
  show ?case
  proof (cases "current_start st \<le> end_dt")
    case True
    let ?b = "loop_body env ticker timespan multiplier cdays end_dt st"
    define ce where "ce = (if current_start st + int cdays > end_dt then end_dt
                           else current_start st + int cdays)"
    have body: "fst ?b = None"
      using "1.prems" by (auto simp: pagination_loop_step[OF True] split: if_splits)
    then have loop: "pagination_loop env ticker timespan multiplier cdays end_dt st =
                     pagination_loop env ticker timespan multiplier cdays end_dt (snd ?b)"
      by (simp add: pagination_loop_step[OF True])
    note b = loop_body_continued[OF body ce_def]
    have ch: "chunks cdays (current_start st) end_dt =
                (current_start st, ce) # chunks cdays (ce + 1) end_dt"
      unfolding ce_def by (rule chunks_step[OF True])
    from "1.IH"[OF True refl body] "1.prems" loop b(3)
    have ih: "out (snd (pagination_loop env ticker timespan multiplier cdays end_dt (snd ?b))) =
        out (snd ?b) @ concat (map (chunk_events env ticker timespan multiplier end_dt)
                        (chunks cdays (ce + 1) end_dt))"
      "all_data (snd (pagination_loop env ticker timespan multiplier cdays end_dt (snd ?b))) =
        all_data (snd ?b) @ filter (\<lambda>df. df \<noteq> [])
          (map (chunk_frame env ticker timespan multiplier) (chunks cdays (ce + 1) end_dt))"
      "\<forall>c \<in> set (chunks cdays (ce + 1) end_dt).
         \<exists>df. fst (get_historical_data env ticker (fst c) (snd c) timespan multiplier) = Inr df"
      by simp_all
    show ?thesis
      unfolding loop ch using ih b by simp
  next
    case False
    then show ?thesis
      by (simp add: pagination_loop_stop chunks_stop)
  qed
qed

lemma loop_does_not_raise:
  assumes "1 \<le> current_start st"
    and "end_dt + int cdays \<le> max_ordinal" and "end_dt + 1 \<le> max_ordinal"
    and "\<And>a b. \<exists>df. fst (get_historical_data env ticker a b timespan multiplier) = Inr df"
  shows "fst (pagination_loop env ticker timespan multiplier cdays end_dt st) = None"
  using assms
proof (induction env ticker timespan multiplier cdays end_dt st rule: pagination_loop.induct)
  case (1 env ticker timespan multiplier cdays end_dt st)
  show ?case
  proof (cases "current_start st \<le> end_dt")
    case True
    let ?b = "loop_body env ticker timespan multiplier cdays end_dt st"
    have body: "fst ?b = None"
      using "1.prems"(1) True "1.prems"(2,3) "1.prems"(4)
      by (rule loop_body_does_not_raise)
    have "1 \<le> current_start (snd ?b)"
      using loop_body_continued(3)[OF body refl] "1.prems"(1) True by simp
    from "1.IH"[OF True refl body this "1.prems"(2,3) "1.prems"(4)] body
    show ?thesis
      by (simp add: pagination_loop_step[OF True])
  next
    case False
    then show ?thesis by (simp add: pagination_loop_stop)
  qed
qed

lemma loop_requests_prefix:
  "\<exists>k. requests (out (snd (pagination_loop env ticker timespan multiplier cdays end_dt st))) =
     requests (out st) @ map (chunk_request ticker timespan multiplier)
                          (take k (chunks cdays (current_start st) end_dt))"
proof (induction env ticker timespan multiplier cdays end_dt st rule: pagination_loop.induct)
  case (1 env ticker timespan multiplier cdays end_dt st)
  show ?case
  proof (cases "current_start st \<le> end_dt")
    case True
    let ?b = "loop_body env ticker timespan multiplier cdays end_dt st"
    define ce where "ce = (if current_start st + int cdays > end_dt then end_dt
                           else current_start st + int cdays)"
    have ch: "chunks cdays (current_start st) end_dt =
                (current_start st, ce) # chunks cdays (ce + 1) end_dt"
      unfolding ce_def by (rule chunks_step[OF True])
    show ?thesis
    proof (cases "fst ?b")
      case None
      note b = loop_body_continued[OF None ce_def]
      from "1.IH"[OF True refl None] b(3) obtain k
        where "requests (out (snd (pagination_loop env ticker timespan multiplier cdays end_dt (snd ?b)))) =
               requests (out (snd ?b)) @ map (chunk_request ticker timespan multiplier)
                          (take k (chunks cdays (ce + 1) end_dt))"
        by auto
      moreover have "requests (out (snd ?b)) =
                     requests (out st) @ [chunk_request ticker timespan multiplier (current_start st, ce)]"
        using b(1) b(4)
          requests_get_historical_data[of env ticker "current_start st" ce timespan multiplier]
          get_historical_data_returned(1)[of env ticker "current_start st" ce timespan multiplier]
        by (auto simp: requests_append chunk_events_def)
      ultimately have "requests (out (snd (pagination_loop env ticker timespan multiplier cdays end_dt st))) =
          requests (out st) @ map (chunk_request ticker timespan multiplier)
                          (take (Suc k) (chunks cdays (current_start st) end_dt))"
        using None by (simp add: pagination_loop_step[OF True] ch)
      then show ?thesis by blast
    next
      case (Some e)
      from loop_body_raised[OF Some ce_def] obtain B
        where B: "out (snd ?b) = out st @ B"
          "requests B = [] \<or> requests B = [chunk_request ticker timespan multiplier (current_start st, ce)]"
        by blast
      have loop: "pagination_loop env ticker timespan multiplier cdays end_dt st = ?b"
        using Some by (simp add: pagination_loop_step[OF True])
      from B(2) show ?thesis
      proof
        assume "requests B = []"
        then have "requests (out (snd (pagination_loop env ticker timespan multiplier cdays end_dt st))) =
          requests (out st) @ map (chunk_request ticker timespan multiplier)
                          (take 0 (chunks cdays (current_start st) end_dt))"
          using B(1) loop by (simp add: requests_append)
        then show ?thesis by blast
      next
        assume "requests B = [chunk_request ticker timespan multiplier (current_start st, ce)]"
        then have "requests (out (snd (pagination_loop env ticker timespan multiplier cdays end_dt st))) =
          requests (out st) @ map (chunk_request ticker timespan multiplier)
                          (take 1 (chunks cdays (current_start st) end_dt))"
          using B(1) loop by (simp add: requests_append ch)
        then show ?thesis by blast
      qed
    qed
  next
    case False
    then have "requests (out (snd (pagination_loop env ticker timespan multiplier cdays end_dt st))) =
          requests (out st) @ map (chunk_request ticker timespan multiplier)
                          (take 0 (chunks cdays (current_start st) end_dt))"
      by (simp add: pagination_loop_stop)
    then show ?thesis by blast
  qed
qed

text \<open>What a pass that does not raise does to the outside.\<close>

lemma requests_chunk_events:
  assumes "fst (get_historical_data env ticker (fst c) (snd c) timespan multiplier) = Inr df"
  shows "requests (chunk_events env ticker timespan multiplier end_dt c) =
           [chunk_request ticker timespan multiplier c]"
  using get_historical_data_returned(1)[OF assms]
    requests_get_historical_data[of env ticker "fst c" "snd c" timespan multiplier]
  by (auto simp: chunk_events_def requests_append)

lemma sleeps_chunk_events:
  "sleeps (chunk_events env ticker timespan multiplier end_dt c) =
     (if snd c + 1 \<le> end_dt then [12] else [])"
  by (simp add: chunk_events_def sleeps_append sleeps_get_historical_data)

lemma waits_chunk_events:
  assumes "fst (get_historical_data env ticker (fst c) (snd c) timespan multiplier) = Inr df"
  shows "waits j (chunk_events env ticker timespan multiplier end_dt c @ es) =
           j # waits (if snd c + 1 \<le> end_dt then 1 else 0) es"
  using get_historical_data_returned(1)[OF assms]
    waits_get_historical_data[of j env ticker "fst c" "snd c" timespan multiplier]
  by (auto simp: chunk_events_def)

lemma loop_pacing:
  "\<exists>Y. out (snd (pagination_loop env ticker timespan multiplier cdays end_dt st)) = out st @ Y
      \<and> (\<forall>j. waits j Y =
               (if requests Y = [] then [] else j # replicate (length (requests Y) - 1) 1))
      \<and> sleeps Y = replicate (length (sleeps Y)) 12
      \<and> length (requests Y) - 1 \<le> length (sleeps Y)
      \<and> length (sleeps Y) \<le> length (requests Y)
      \<and> (fst (pagination_loop env ticker timespan multiplier cdays end_dt st) = None \<longrightarrow>
           length (sleeps Y) = length (requests Y) - 1
           \<and> (current_start st \<le> end_dt \<longrightarrow> requests Y \<noteq> []))"
proof (induction env ticker timespan multiplier cdays end_dt st rule: pagination_loop.induct)
  case (1 env ticker timespan multiplier cdays end_dt st)
  let ?loop = "pagination_loop env ticker timespan multiplier cdays end_dt"
  show ?case
  proof (cases "current_start st \<le> end_dt")
    case True
    let ?b = "loop_body env ticker timespan multiplier cdays end_dt st"
    define ce where "ce = (if current_start st + int cdays > end_dt then end_dt
                           else current_start st + int cdays)"
    show ?thesis
    proof (cases "fst ?b")
      case None
      note b = loop_body_continued[OF None ce_def]
      let ?C = "chunk_events env ticker timespan multiplier end_dt (current_start st, ce)"
      from b(4) obtain df
        where df: "fst (get_historical_data env ticker (fst (current_start st, ce))
                     (snd (current_start st, ce)) timespan multiplier) = Inr df"
        by auto
      have rqC: "requests ?C = [chunk_request ticker timespan multiplier (current_start st, ce)]"
        by (rule requests_chunk_events[OF df])
      have slC: "sleeps ?C = (if ce + 1 \<le> end_dt then [12] else [])"
        by (simp add: sleeps_chunk_events)
      have wtC: "waits j (?C @ es) = j # waits (if ce + 1 \<le> end_dt then 1 else 0) es" for j es
        using waits_chunk_events[OF df] by simp
      have loop: "?loop st = ?loop (snd ?b)"
        using None by (simp add: pagination_loop_step[OF True])
      from "1.IH"[OF True refl None] obtain Y
        where Y0: "out (snd (?loop (snd ?b))) = out (snd ?b) @ Y
          \<and> (\<forall>j. waits j Y =
               (if requests Y = [] then [] else j # replicate (length (requests Y) - 1) 1))
          \<and> sleeps Y = replicate (length (sleeps Y)) 12
          \<and> length (requests Y) - 1 \<le> length (sleeps Y)
          \<and> length (sleeps Y) \<le> length (requests Y)
          \<and> (fst (?loop (snd ?b)) = None \<longrightarrow>
               length (sleeps Y) = length (requests Y) - 1
               \<and> (current_start (snd ?b) \<le> end_dt \<longrightarrow> requests Y \<noteq> []))"
        by (elim exE)
      then have Y: "out (snd (?loop (snd ?b))) = out (snd ?b) @ Y"
          "\<And>j. waits j Y =
               (if requests Y = [] then [] else j # replicate (length (requests Y) - 1) 1)"
          "sleeps Y = replicate (length (sleeps Y)) 12"
          "length (requests Y) - 1 \<le> length (sleeps Y)"
          "length (sleeps Y) \<le> length (requests Y)"
          "fst (?loop (snd ?b)) = None \<Longrightarrow> length (sleeps Y) = length (requests Y) - 1"
          "fst (?loop (snd ?b)) = None \<Longrightarrow> current_start (snd ?b) \<le> end_dt \<Longrightarrow> requests Y \<noteq> []"
        by blast+
      have o: "out (snd (?loop st)) = out st @ (?C @ Y)"
        using Y(1) b(1) loop by simp
      show ?thesis
      proof (cases "ce + 1 \<le> end_dt")
        case more: True
        have rep: "1 # replicate (length (requests Y) - 1) 1 = replicate (length (requests Y)) (1::nat)"
          if "requests Y \<noteq> []"
          using that by (cases "requests Y") simp_all
        have w: "waits j (?C @ Y) = j # replicate (length (requests Y)) 1" for j
          using wtC[of j Y] Y(2)[of 1] more rep by (cases "requests Y = []") simp_all
        have s: "sleeps (?C @ Y) = replicate (Suc (length (sleeps Y))) 12"
          using slC Y(3) more by (simp add: sleeps_append)
        have r: "requests (?C @ Y) =
                   chunk_request ticker timespan multiplier (current_start st, ce) # requests Y"
          using rqC by (simp add: requests_append)
        have n: "fst (?loop st) = None \<Longrightarrow> Suc (length (sleeps Y)) = length (requests Y)"
          using Y(6,7) loop b(3) more by (cases "requests Y") auto
        from o w s r n Y(4,5) show ?thesis
          by (intro exI[of _ "?C @ Y"]) auto
      next
        case last: False
        then have "?loop (snd ?b) = (None, snd ?b)"
          using b(3) by (simp add: pagination_loop_stop)
        with Y(1) have "Y = []" by simp
        with o wtC[of _ "[]"] slC rqC last show ?thesis
          by (intro exI[of _ "?C"]) auto
      qed
    next
      case (Some e)
      from loop_body_raised[OF Some ce_def] obtain B
        where B: "out (snd ?b) = out st @ B" "sleeps B = []"
          "requests B = [] \<or> requests B = [chunk_request ticker timespan multiplier (current_start st, ce)]"
          "\<And>j. waits j B = map (\<lambda>r. j) (requests B)"
        by blast
      have loop: "?loop st = ?b"
        using Some by (simp add: pagination_loop_step[OF True])
      from B Some show ?thesis
        unfolding loop by (intro exI[of _ B]) auto
    qed
  next
    case False
    then show ?thesis
      by (intro exI[of _ "[]"]) (simp add: pagination_loop_stop)
  qed
qed

text \<open>The whole fetch.\<close>

lemma snd_get_paginated_data:
  "snd (get_paginated_data env ticker start_dt end_dt timespan multiplier) =
     out (snd (pagination_loop env ticker timespan multiplier (chunk_days timespan) end_dt
                 \<lparr> all_data = [], current_start = start_dt, out = [] \<rparr>))"
  by (simp add: get_paginated_data_def Let_def split: prod.splits option.splits)

lemma fst_get_paginated_data_Inr:
  "(\<exists>frame. fst (get_paginated_data env ticker start_dt end_dt timespan multiplier) = Inr frame)
     \<longleftrightarrow> fst (pagination_loop env ticker timespan multiplier (chunk_days timespan) end_dt
                 \<lparr> all_data = [], current_start = start_dt, out = [] \<rparr>) = None"
  by (auto simp: get_paginated_data_def Let_def split: prod.splits option.splits)

lemma get_paginated_data_returned:
  assumes "fst (get_paginated_data env ticker start_dt end_dt timespan multiplier) = Inr frame"
  shows "snd (get_paginated_data env ticker start_dt end_dt timespan multiplier) =
           concat (map (chunk_events env ticker timespan multiplier end_dt)
                     (chunks (chunk_days timespan) start_dt end_dt))"
    and "frame = concat (map (chunk_frame env ticker timespan multiplier)
                           (chunks (chunk_days timespan) start_dt end_dt))"
    and "\<forall>c \<in> set (chunks (chunk_days timespan) start_dt end_dt).
           \<exists>df. fst (get_historical_data env ticker (fst c) (snd c) timespan multiplier) = Inr df"
proof -
  let ?st0 = "\<lparr> all_data = [], current_start = start_dt, out = [] \<rparr> :: 'a fetch_state"
  let ?l = "pagination_loop env ticker timespan multiplier (chunk_days timespan) end_dt ?st0"
  have none: "fst ?l = None"
    using assms fst_get_paginated_data_Inr[of env ticker start_dt end_dt timespan multiplier]
    by blast
  note l = loop_returned[OF none]
  have a: "concat (filter (\<lambda>df. df \<noteq> []) xs) = concat xs" for xs :: "'b list list"
    by (induction xs) auto
  have b: "(if ys \<noteq> [] then concat ys else []) = concat ys" for ys :: "'b list list"
    by simp
  show "snd (get_paginated_data env ticker start_dt end_dt timespan multiplier) =
           concat (map (chunk_events env ticker timespan multiplier end_dt)
                     (chunks (chunk_days timespan) start_dt end_dt))"
    using l by (simp add: snd_get_paginated_data)
  have "fst (get_paginated_data env ticker start_dt end_dt timespan multiplier) =
          Inr (concat (all_data (snd ?l)))"
    using none by (cases ?l) (simp add: get_paginated_data_def Let_def b)
  with assms l show "frame = concat (map (chunk_frame env ticker timespan multiplier)
                           (chunks (chunk_days timespan) start_dt end_dt))"
    by (simp add: a)
  show "\<forall>c \<in> set (chunks (chunk_days timespan) start_dt end_dt).
           \<exists>df. fst (get_historical_data env ticker (fst c) (snd c) timespan multiplier) = Inr df"
    using l by simp
qed

lemma requests_concat_chunk_events:
  assumes "\<forall>c \<in> set cs.
             \<exists>df. fst (get_historical_data env ticker (fst c) (snd c) timespan multiplier) = Inr df"
  shows "requests (concat (map (chunk_events env ticker timespan multiplier end_dt) cs)) =
           map (chunk_request ticker timespan multiplier) cs"
  using assms
proof (induction cs)
  case Nil
  then show ?case by simp
next
  case (Cons c cs)
  then obtain df
    where "fst (get_historical_data env ticker (fst c) (snd c) timespan multiplier) = Inr df"
    by auto
  from requests_chunk_events[OF this] Cons show ?case
    by (simp add: requests_append)
qed

lemma chunk_frame_answer_rows:
  assumes "fst (get_historical_data env ticker (fst c) (snd c) timespan multiplier) = Inr df"
  shows "chunk_frame env ticker timespan multiplier c =
           answer_rows env (chunk_request ticker timespan multiplier c)"
  using get_historical_data_returned(2)[OF assms] assms
  by (simp add: chunk_frame_def)

lemma requests_returned:
  assumes "fst (get_paginated_data env ticker start_dt end_dt timespan multiplier) = Inr frame"
  shows "requests (snd (get_paginated_data env ticker start_dt end_dt timespan multiplier)) =
           map (chunk_request ticker timespan multiplier)
             (chunks (chunk_days timespan) start_dt end_dt)"
  using get_paginated_data_returned[OF assms]
  by (simp add: requests_concat_chunk_events)

lemma chunk_ranges_returned:
  assumes "fst (get_paginated_data env ticker start_dt end_dt timespan multiplier) = Inr frame"
  shows "chunk_ranges (snd (get_paginated_data env ticker start_dt end_dt timespan multiplier)) =
           chunks (chunk_days timespan) start_dt end_dt"
  by (simp add: chunk_ranges_def requests_returned[OF assms] chunk_request_def comp_def)

lemma frame_returned:
  assumes "fst (get_paginated_data env ticker start_dt end_dt timespan multiplier) = Inr frame"
  shows "frame = concat (chunk_frames env
                   (snd (get_paginated_data env ticker start_dt end_dt timespan multiplier)))"
proof -
  note r = get_paginated_data_returned[OF assms]
  have "map (chunk_frame env ticker timespan multiplier)
          (chunks (chunk_days timespan) start_dt end_dt) =
        map (\<lambda>c. answer_rows env (chunk_request ticker timespan multiplier c))
          (chunks (chunk_days timespan) start_dt end_dt)"
  proof (rule map_cong[OF refl])
    fix c
    assume "c \<in> set (chunks (chunk_days timespan) start_dt end_dt)"
    with r(3) obtain df
      where "fst (get_historical_data env ticker (fst c) (snd c) timespan multiplier) = Inr df"
      by blast
    then show "chunk_frame env ticker timespan multiplier c =
               answer_rows env (chunk_request ticker timespan multiplier c)"
      by (rule chunk_frame_answer_rows)
  qed
  with r(2) show ?thesis
    by (simp add: chunk_frames_def requests_returned[OF assms] comp_def)
qed

lemma chunk_ranges_prefix:
  "\<exists>k. chunk_ranges (snd (get_paginated_data env ticker start_dt end_dt timespan multiplier)) =
     take k (chunks (chunk_days timespan) start_dt end_dt)"
proof -
  let ?st0 = "\<lparr> all_data = [], current_start = start_dt, out = [] \<rparr> :: 'a fetch_state"
  from loop_requests_prefix[of env ticker timespan multiplier "chunk_days timespan" end_dt ?st0]
  obtain k where "requests (snd (get_paginated_data env ticker start_dt end_dt timespan multiplier)) =
     map (chunk_request ticker timespan multiplier)
       (take k (chunks (chunk_days timespan) start_dt end_dt))"
    by (auto simp: snd_get_paginated_data)
  then have "chunk_ranges (snd (get_paginated_data env ticker start_dt end_dt timespan multiplier)) =
     take k (chunks (chunk_days timespan) start_dt end_dt)"
    by (simp add: chunk_ranges_def chunk_request_def comp_def)
  then show ?thesis ..
qed

lemma chunk_days_le_30: "int (chunk_days timespan) \<le> 30" and chunk_days_ge_1: "1 \<le> int (chunk_days timespan)"
  by (simp_all add: chunk_days_def)

lemma get_paginated_data_does_not_raise:
  assumes "1 \<le> start_dt" and "end_dt + int (chunk_days timespan) \<le> max_ordinal"
    and "\<And>a b. \<exists>df. fst (get_historical_data env ticker a b timespan multiplier) = Inr df"
  shows "\<exists>frame. fst (get_paginated_data env ticker start_dt end_dt timespan multiplier) = Inr frame"
proof -
  let ?st0 = "\<lparr> all_data = [], current_start = start_dt, out = [] \<rparr> :: 'a fetch_state"
  have "end_dt + 1 \<le> max_ordinal"
    using assms(2) chunk_days_ge_1[of timespan] by linarith
  with assms have "fst (pagination_loop env ticker timespan multiplier (chunk_days timespan) end_dt ?st0) = None"
    by (intro loop_does_not_raise) simp_all
  then show ?thesis
    by (simp add: fst_get_paginated_data_Inr)
qed

lemma get_paginated_data_reversed:
  assumes "end_dt < start_dt"
  shows "get_paginated_data env ticker start_dt end_dt timespan multiplier = (Inr [], [])"
  using assms by (simp add: get_paginated_data_def pagination_loop_stop)

lemma get_paginated_data_pacing:
  fixes env :: "'p env"
  assumes es_def: "es = snd (get_paginated_data env ticker start_dt end_dt timespan multiplier)"
  shows "waits j es = (if requests es = [] then [] else j # replicate (length (requests es) - 1) 1)"
    and "sleeps es = replicate (length (sleeps es)) 12"
    and "length (requests es) - 1 \<le> length (sleeps es)"
    and "length (sleeps es) \<le> length (requests es)"
    and "fst (get_paginated_data env ticker start_dt end_dt timespan multiplier) = Inr frame \<Longrightarrow>
           length (sleeps es) = length (requests es) - 1"
proof -
  let ?st0 = "\<lparr> all_data = [], current_start = start_dt, out = [] \<rparr> :: 'p fetch_state"
  let ?l = "pagination_loop env ticker timespan multiplier (chunk_days timespan) end_dt ?st0"
  from loop_pacing[of env ticker timespan multiplier "chunk_days timespan" end_dt ?st0]
  obtain Y where Y: "out (snd ?l) = out ?st0 @ Y
      \<and> (\<forall>j. waits j Y =
               (if requests Y = [] then [] else j # replicate (length (requests Y) - 1) 1))
      \<and> sleeps Y = replicate (length (sleeps Y)) 12
      \<and> length (requests Y) - 1 \<le> length (sleeps Y)
      \<and> length (sleeps Y) \<le> length (requests Y)
      \<and> (fst ?l = None \<longrightarrow>
           length (sleeps Y) = length (requests Y) - 1
           \<and> (current_start ?st0 \<le> end_dt \<longrightarrow> requests Y \<noteq> []))"
    by (elim exE)
  then have e: "es = Y" by (simp add: es_def snd_get_paginated_data)
  from Y show "waits j es = (if requests es = [] then [] else j # replicate (length (requests es) - 1) 1)"
    unfolding e by blast
  from Y show "sleeps es = replicate (length (sleeps es)) 12" unfolding e by blast
  from Y show "length (requests es) - 1 \<le> length (sleeps es)" unfolding e by blast
  from Y show "length (sleeps es) \<le> length (requests es)" unfolding e by blast
  assume "fst (get_paginated_data env ticker start_dt end_dt timespan multiplier) = Inr frame"
  then have "fst ?l = None"
    using fst_get_paginated_data_Inr[of env ticker start_dt end_dt timespan multiplier] by blast
  with Y show "length (sleeps es) = length (requests es) - 1" unfolding e by blast
qed

lemma requests_distinct:
  "distinct (requests (snd (get_paginated_data env ticker start_dt end_dt timespan multiplier)))"
proof -
  from chunk_ranges_prefix[of env ticker start_dt end_dt timespan multiplier] obtain k
    where k: "chunk_ranges (snd (get_paginated_data env ticker start_dt end_dt timespan multiplier)) =
     take k (chunks (chunk_days timespan) start_dt end_dt)" ..
  have "sorted_wrt (<) (map fst (chunks (chunk_days timespan) start_dt end_dt))"
    using chunks_starts_ascending by (simp add: sorted_wrt_map)
  then have "distinct (map fst (chunks (chunk_days timespan) start_dt end_dt))"
    by (simp add: strict_sorted_iff)
  then have "distinct (map fst (take k (chunks (chunk_days timespan) start_dt end_dt)))"
    by (simp add: take_map[symmetric] del: take_map)
  moreover have "map req_from
     (requests (snd (get_paginated_data env ticker start_dt end_dt timespan multiplier))) =
     map fst (chunk_ranges (snd (get_paginated_data env ticker start_dt end_dt timespan multiplier)))"
    by (simp add: chunk_ranges_def comp_def)
  ultimately have "distinct (map req_from
     (requests (snd (get_paginated_data env ticker start_dt end_dt timespan multiplier))))"
    using k by simp
  then show ?thesis by (simp add: distinct_map)
qed

section \<open>Lemmas about the sample environments\<close>

lemmas env_eval = sample_env_def no_key_env_def polygon_rest_client_def pandas_to_datetime_def
  no_data_client_def two_bar_client_def unauthorized_first_client_def far_future_client_def
  interrupted_client_def sample_agg_def sample_bar_def midnight_ms_def chunk_request_def
  bar_of_agg_def and_then_def getattr_def

lemma bar_of_sample_agg:
  "bar_of_agg pandas_to_datetime (sample_agg t) =
     (if - 9223372036854 \<le> t \<and> t \<le> 9223372036854 then Inr (sample_bar t)
      else Inl (Exception ''Out of bounds nanosecond timestamp''))"
  by (simp add: env_eval)

lemma build_rows_sample_aggs:
  "build_rows pandas_to_datetime (map sample_agg ts) = Inl e \<Longrightarrow> is_Exception e"
  by (induction ts arbitrary: e)
     (auto simp: bar_of_sample_agg and_then_def split: if_splits sum.splits)

lemma get_historical_data_returns:
  assumes "rest_client env (api_key env) = Inr client"
    and "\<And>req e. client req = Inl e \<Longrightarrow> is_Exception e"
    and "\<And>req aggs e. client req = Inr aggs \<Longrightarrow> build_rows (to_datetime env) aggs = Inl e
           \<Longrightarrow> is_Exception e"
  shows "\<exists>df. fst (get_historical_data env ticker a b timespan multiplier) = Inr df"
proof (cases "fst (get_historical_data env ticker a b timespan multiplier)")
  case (Inl e)
  then have "\<not> is_Exception e"
    using get_historical_data_raised[OF Inl] assms(1) by simp
  moreover have "is_Exception e"
    using Inl assms
    by (auto simp: get_historical_data_def except_Exception_def Let_def
        split: sum.splits if_splits)
  ultimately show ?thesis by simp
next
  case (Inr df)
  then show ?thesis by blast
qed

lemma sample_env_returns:
  assumes "client = no_data_client \<or> client = two_bar_client \<or> client = unauthorized_first_client"
  shows "\<exists>df. fst (get_historical_data (sample_env client) ticker a b timespan multiplier) = Inr df"
proof (rule get_historical_data_returns)
  show "rest_client (sample_env client) (api_key (sample_env client)) = Inr client"
    by (simp add: sample_env_def polygon_rest_client_def)
  show "is_Exception e" if "client req = Inl e" for req e
    using that assms
    by (auto simp: no_data_client_def two_bar_client_def unauthorized_first_client_def
        split: if_splits)
  show "is_Exception e"
    if "client req = Inr aggs" "build_rows (to_datetime (sample_env client)) aggs = Inl e"
    for req aggs e
  proof -
    have "\<exists>ts. aggs = map sample_agg ts"
      using that(1) assms
      by (auto simp: no_data_client_def two_bar_client_def unauthorized_first_client_def
          split: if_splits intro: exI[of _ "[]"] exI[of _ "[x, y]" for x y])
    then obtain ts where "aggs = map sample_agg ts" ..
    with that(2) show ?thesis
      using build_rows_sample_aggs[of ts e] by (simp add: sample_env_def)
  qed
qed

lemma sample_fetch_returns:
  assumes "client = no_data_client \<or> client = two_bar_client \<or> client = unauthorized_first_client"
    and "1 \<le> start_dt" and "end_dt + 30 \<le> max_ordinal"
  shows "\<exists>frame. fst (get_paginated_data (sample_env client) ticker start_dt end_dt timespan multiplier)
           = Inr frame"
proof (rule get_paginated_data_does_not_raise)
  show "1 \<le> start_dt" by fact
  show "end_dt + int (chunk_days timespan) \<le> max_ordinal"
    using assms(3) chunk_days_le_30[of timespan] by linarith
  show "\<exists>df. fst (get_historical_data (sample_env client) ticker a b timespan multiplier) = Inr df"
    for a b
    using assms(1) by (rule sample_env_returns)
qed

section \<open>The chunks of a paginated fetch\<close>

text \<open>
  Claim C1, as the specification states it: for every start date not after the end date
  the chunks requested cover the range. For 9999-12-25 to 9999-12-31 at minute
  granularity the first date addition of the loop raises \<open>OverflowError\<close>: the fetch ends
  with that exception and no chunk was requested.
\<close>

theorem chunks_partition_range_counterexample:
  "ymd 9999 12 25 \<le> ymd 9999 12 31
   \<and> get_paginated_data (sample_env no_data_client) ''AAPL'' (ymd 9999 12 25) (ymd 9999 12 31)
         ''minute'' 1
       = (Inl (OverflowError ''date value out of range''), [])"
  by (simp add: ymd_eval get_paginated_data_def pagination_loop_step loop_body_def add_days_def
      max_ordinal_def chunk_days_def)

text \<open>
  Claim C1, amended. For every start date not after the end date and every granularity
  (so for minute and hour), whenever \<open>get_paginated_data\<close> returns, that is, no exception
  leaves it, the chunks it requested begin at the start date and end at the end date;
  each chunk starts the day after the one before it ends (\<open>contiguous\<close>); every chunk
  lies wholly before every later one, so they are in ascending order and no two overlap;
  no chunk is empty; and the days of all chunks together are exactly the days from start
  to end. And it does return whenever the start is a date, the end date plus
  \<open>chunk_days\<close> is not after 9999-12-31 and no call of \<open>get_historical_data\<close> raises.
\<close>

theorem chunks_partition_range:
  "(start_dt \<le> end_dt
      \<and> fst (get_paginated_data env ticker start_dt end_dt timespan multiplier) = Inr frame \<longrightarrow>
      (let cs = chunk_ranges (snd (get_paginated_data env ticker start_dt end_dt timespan multiplier))
       in cs \<noteq> [] \<and> fst (hd cs) = start_dt \<and> snd (last cs) = end_dt
          \<and> contiguous cs
          \<and> sorted_wrt (\<lambda>c d. snd c < fst d) cs
          \<and> (\<forall>c \<in> set cs. fst c \<le> snd c)
          \<and> (\<Union>c \<in> set cs. {fst c..snd c}) = {start_dt..end_dt}))
   \<and> (1 \<le> start_dt \<and> end_dt + int (chunk_days timespan) \<le> max_ordinal
      \<and> (\<forall>a b. \<exists>df. fst (get_historical_data env ticker a b timespan multiplier) = Inr df) \<longrightarrow>
      (\<exists>frame. fst (get_paginated_data env ticker start_dt end_dt timespan multiplier) = Inr frame))"
proof (intro conjI impI)
  assume a: "start_dt \<le> end_dt
      \<and> fst (get_paginated_data env ticker start_dt end_dt timespan multiplier) = Inr frame"
  let ?cs = "chunks (chunk_days timespan) start_dt end_dt"
  have "?cs \<noteq> []" using a by (simp add: chunks_step)
  moreover have "fst (hd ?cs) = start_dt" using a by (simp add: chunks_first)
  moreover have "snd (last ?cs) = end_dt" using a by (simp add: chunks_last)
  moreover have "contiguous ?cs" by (rule chunks_contiguous)
  moreover have "sorted_wrt (\<lambda>c d. snd c < fst d) ?cs" by (rule chunks_ascending)
  moreover have "\<forall>c \<in> set ?cs. fst c \<le> snd c" using chunks_bounds by blast
  moreover have "(\<Union>c \<in> set ?cs. {fst c..snd c}) = {start_dt..end_dt}" by (rule chunks_union)
  moreover have "chunk_ranges (snd (get_paginated_data env ticker start_dt end_dt timespan multiplier))
                   = ?cs"
    using a by (intro chunk_ranges_returned) simp
  ultimately show "let cs = chunk_ranges (snd (get_paginated_data env ticker start_dt end_dt timespan multiplier))
       in cs \<noteq> [] \<and> fst (hd cs) = start_dt \<and> snd (last cs) = end_dt
          \<and> contiguous cs
          \<and> sorted_wrt (\<lambda>c d. snd c < fst d) cs
          \<and> (\<forall>c \<in> set cs. fst c \<le> snd c)
          \<and> (\<Union>c \<in> set cs. {fst c..snd c}) = {start_dt..end_dt}"
    unfolding Let_def by simp
next
  assume "1 \<le> start_dt \<and> end_dt + int (chunk_days timespan) \<le> max_ordinal
      \<and> (\<forall>a b. \<exists>df. fst (get_historical_data env ticker a b timespan multiplier) = Inr df)"
  then show "\<exists>frame. fst (get_paginated_data env ticker start_dt end_dt timespan multiplier) = Inr frame"
    by (intro get_paginated_data_does_not_raise) blast+
qed

text \<open>The range 2024-01-01 to 2024-01-20 at minute granularity is such a fetch.\<close>

theorem chunks_partition_range_witness:
  "ymd 2024 1 1 \<le> ymd 2024 1 20
   \<and> 1 \<le> ymd 2024 1 1
   \<and> ymd 2024 1 20 + int (chunk_days ''minute'') \<le> max_ordinal
   \<and> fst (get_paginated_data (sample_env no_data_client) ''AAPL'' (ymd 2024 1 1) (ymd 2024 1 20)
            ''minute'' 1) = Inr []
   \<and> (let cs = chunk_ranges (snd (get_paginated_data (sample_env no_data_client) ''AAPL''
                  (ymd 2024 1 1) (ymd 2024 1 20) ''minute'' 1))
      in cs \<noteq> [] \<and> fst (hd cs) = ymd 2024 1 1 \<and> snd (last cs) = ymd 2024 1 20
         \<and> contiguous cs
         \<and> sorted_wrt (\<lambda>c d. snd c < fst d) cs
         \<and> (\<forall>c \<in> set cs. fst c \<le> snd c)
         \<and> (\<Union>c \<in> set cs. {fst c..snd c}) = {ymd 2024 1 1..ymd 2024 1 20})"
proof -
  let ?E = "sample_env no_data_client"
  let ?r = "get_paginated_data ?E ''AAPL'' (ymd 2024 1 1) (ymd 2024 1 20) ''minute'' 1"
  have h1: "ymd 2024 1 1 \<le> ymd 2024 1 20" and h2: "1 \<le> ymd 2024 1 1"
    and h3: "ymd 2024 1 20 + int (chunk_days ''minute'') \<le> max_ordinal"
    by (simp_all add: ymd_eval chunk_days_def max_ordinal_def)
  have h4: "\<forall>a b. \<exists>df. fst (get_historical_data ?E ''AAPL'' a b ''minute'' 1) = Inr df"
    by (simp add: sample_env_returns)
  note t = chunks_partition_range[of "ymd 2024 1 1" "ymd 2024 1 20" ?E "''AAPL''" "''minute''" 1]
  from t h2 h3 h4 obtain frame where fr: "fst ?r = Inr frame" by blast
  have "answer_rows ?E r = []" for r
    by (simp add: answer_rows_def env_eval)
  with frame_returned[OF fr] have "frame = []"
    by (simp add: chunk_frames_def)
  with t[of frame] h1 h2 h3 fr show ?thesis by simp
qed

text \<open>
  Claim C2, as the specification states it: the range 2024-01-01 to 2024-01-20 at minute
  granularity is fetched as 01-01..01-07, 01-08..01-14, 01-15..01-20. The loop does not
  send these requests.
\<close>

theorem minute_example_three_chunks_counterexample:
  "chunk_ranges (snd (get_paginated_data (sample_env no_data_client) ''AAPL''
      (ymd 2024 1 1) (ymd 2024 1 20) ''minute'' 1))
     \<noteq> [(ymd 2024 1 1, ymd 2024 1 7), (ymd 2024 1 8, ymd 2024 1 14), (ymd 2024 1 15, ymd 2024 1 20)]"
proof -
  obtain frame where "fst (get_paginated_data (sample_env no_data_client) ''AAPL''
      (ymd 2024 1 1) (ymd 2024 1 20) ''minute'' 1) = Inr frame"
    using sample_fetch_returns[of no_data_client "ymd 2024 1 1" "ymd 2024 1 20" "''AAPL''" "''minute''" 1]
    by (auto simp: ymd_eval max_ordinal_def)
  from chunk_ranges_returned[OF this] show ?thesis
    by (simp add: chunk_days_def ymd_eval chunks_minute_example)
qed

text \<open>
  Claim C2, amended. For the range 2024-01-01 to 2024-01-20 with granularity minute and
  multiplier 1, a fetch that returns has sent exactly three requests, for
  2024-01-01..2024-01-08, 2024-01-09..2024-01-16 and 2024-01-17..2024-01-20: a chunk ends
  \<open>chunk_days\<close> days after it starts, and the dates of a request are both inclusive. A
  fetch that an exception ends has sent the first so many of these three, and nothing
  else.
\<close>

theorem minute_example_three_chunks:
  "(\<exists>k. chunk_ranges (snd (get_paginated_data env ticker (ymd 2024 1 1) (ymd 2024 1 20) ''minute'' 1))
        = take k [(ymd 2024 1 1, ymd 2024 1 8), (ymd 2024 1 9, ymd 2024 1 16),
                  (ymd 2024 1 17, ymd 2024 1 20)])
   \<and> (fst (get_paginated_data env ticker (ymd 2024 1 1) (ymd 2024 1 20) ''minute'' 1) = Inr frame \<longrightarrow>
      chunk_ranges (snd (get_paginated_data env ticker (ymd 2024 1 1) (ymd 2024 1 20) ''minute'' 1))
        = [(ymd 2024 1 1, ymd 2024 1 8), (ymd 2024 1 9, ymd 2024 1 16),
           (ymd 2024 1 17, ymd 2024 1 20)])"
proof -
  have c: "chunks (chunk_days ''minute'') (ymd 2024 1 1) (ymd 2024 1 20) =
           [(ymd 2024 1 1, ymd 2024 1 8), (ymd 2024 1 9, ymd 2024 1 16),
            (ymd 2024 1 17, ymd 2024 1 20)]"
    by (simp add: chunk_days_def ymd_eval chunks_minute_example)
  show ?thesis
    using chunk_ranges_prefix[of env ticker "ymd 2024 1 1" "ymd 2024 1 20" "''minute''" 1]
      chunk_ranges_returned[of env ticker "ymd 2024 1 1" "ymd 2024 1 20" "''minute''" 1 frame]
    unfolding c by blast
qed

text \<open>A fetch of that range that returns, with two bars in each chunk.\<close>

theorem minute_example_three_chunks_witness:
  "fst (get_paginated_data (sample_env two_bar_client) ''AAPL'' (ymd 2024 1 1) (ymd 2024 1 20)
          ''minute'' 1)
     = Inr (map sample_bar [1704067200000, 1704067260000, 1704758400000, 1704758460000,
                            1705449600000, 1705449660000])
   \<and> chunk_ranges (snd (get_paginated_data (sample_env two_bar_client) ''AAPL''
        (ymd 2024 1 1) (ymd 2024 1 20) ''minute'' 1))
     = [(ymd 2024 1 1, ymd 2024 1 8), (ymd 2024 1 9, ymd 2024 1 16), (ymd 2024 1 17, ymd 2024 1 20)]"
proof -
  let ?E = "sample_env two_bar_client"
  let ?r = "get_paginated_data ?E ''AAPL'' (ymd 2024 1 1) (ymd 2024 1 20) ''minute'' 1"
  obtain frame where fr: "fst ?r = Inr frame"
    using sample_fetch_returns[of two_bar_client "ymd 2024 1 1" "ymd 2024 1 20" "''AAPL''" "''minute''" 1]
    by (auto simp: ymd_eval max_ordinal_def)
  have "frame = map sample_bar [1704067200000, 1704067260000, 1704758400000, 1704758460000,
                            1705449600000, 1705449660000]"
    unfolding frame_returned[OF fr] chunk_frames_def requests_returned[OF fr]
    by (simp add: chunk_days_def ymd_eval chunks_minute_example answer_rows_def env_eval)
  with fr minute_example_three_chunks[of ?E "''AAPL''" frame] show ?thesis by simp
qed

text \<open>
  Claim C3, as the specification states it: no chunk covers more than 7 calendar days
  (minute) or 30 (hour), counting both its start and its end date. The first chunk of the
  range 2024-01-01 to 2024-03-01 covers 8 days at minute granularity and 31 at hour
  granularity.
\<close>

theorem chunk_span_counterexample:
  "(ymd 2024 1 1, ymd 2024 1 8) \<in>
     set (chunk_ranges (snd (get_paginated_data (sample_env no_data_client) ''AAPL''
            (ymd 2024 1 1) (ymd 2024 3 1) ''minute'' 1)))
   \<and> card {ymd 2024 1 1..ymd 2024 1 8} = 8
   \<and> (ymd 2024 1 1, ymd 2024 1 31) \<in>
     set (chunk_ranges (snd (get_paginated_data (sample_env no_data_client) ''AAPL''
            (ymd 2024 1 1) (ymd 2024 3 1) ''hour'' 1)))
   \<and> card {ymd 2024 1 1..ymd 2024 1 31} = 31"
proof -
  let ?E = "sample_env no_data_client"
  obtain f1 where "fst (get_paginated_data ?E ''AAPL'' (ymd 2024 1 1) (ymd 2024 3 1) ''minute'' 1) = Inr f1"
    using sample_fetch_returns[of no_data_client "ymd 2024 1 1" "ymd 2024 3 1" "''AAPL''" "''minute''" 1]
    by (auto simp: ymd_eval max_ordinal_def)
  note m = chunk_ranges_returned[OF this]
  obtain f2 where "fst (get_paginated_data ?E ''AAPL'' (ymd 2024 1 1) (ymd 2024 3 1) ''hour'' 1) = Inr f2"
    using sample_fetch_returns[of no_data_client "ymd 2024 1 1" "ymd 2024 3 1" "''AAPL''" "''hour''" 1]
    by (auto simp: ymd_eval max_ordinal_def)
  note h = chunk_ranges_returned[OF this]
  show ?thesis
    unfolding m h by (simp add: chunk_days_def chunks_step chunks_stop ymd_eval)
qed

text \<open>
  Claim C3, amended. For every range and every environment, whether the fetch returns or
  raises, each chunk requested ends at most 7 days after it starts for granularity
  minute, and at most 30 days after it starts for any other granularity (hour among
  them), and never before it starts; counting both end dates it covers at most 8
  calendar days for minute and at most 31 otherwise.
\<close>

theorem chunk_span_bound:
  "\<forall>c \<in> set (chunk_ranges (snd (get_paginated_data env ticker start_dt end_dt timespan multiplier))).
      fst c \<le> snd c
      \<and> snd c - fst c \<le> (if timespan = ''minute'' then 7 else 30)
      \<and> card {fst c..snd c} \<le> (if timespan = ''minute'' then 8 else 31)"
proof
  fix c
  assume c: "c \<in> set (chunk_ranges (snd (get_paginated_data env ticker start_dt end_dt timespan multiplier)))"
  obtain k where "chunk_ranges (snd (get_paginated_data env ticker start_dt end_dt timespan multiplier)) =
     take k (chunks (chunk_days timespan) start_dt end_dt)"
    using chunk_ranges_prefix[of env ticker start_dt end_dt timespan multiplier] ..
  with c have "c \<in> set (chunks (chunk_days timespan) start_dt end_dt)"
    by (auto dest: in_set_takeD)
  from chunks_bounds[OF this]
  have "fst c \<le> snd c" and "snd c - fst c \<le> int (chunk_days timespan)" by simp_all
  then show "fst c \<le> snd c
      \<and> snd c - fst c \<le> (if timespan = ''minute'' then 7 else 30)
      \<and> card {fst c..snd c} \<le> (if timespan = ''minute'' then 8 else 31)"
    by (auto simp: chunk_days_def)
qed

text \<open>The second chunk of the range 2024-01-01 to 2024-01-20 at minute granularity.\<close>

theorem chunk_span_bound_witness:
  "(ymd 2024 1 9, ymd 2024 1 16) \<in>
     set (chunk_ranges (snd (get_paginated_data (sample_env no_data_client) ''AAPL''
            (ymd 2024 1 1) (ymd 2024 1 20) ''minute'' 1)))
   \<and> ymd 2024 1 9 \<le> ymd 2024 1 16
   \<and> ymd 2024 1 16 - ymd 2024 1 9 \<le> 7
   \<and> card {ymd 2024 1 9..ymd 2024 1 16} \<le> 8"
proof -
  let ?cs = "chunk_ranges (snd (get_paginated_data (sample_env no_data_client) ''AAPL''
               (ymd 2024 1 1) (ymd 2024 1 20) ''minute'' 1))"
  obtain frame where "fst (get_paginated_data (sample_env no_data_client) ''AAPL''
      (ymd 2024 1 1) (ymd 2024 1 20) ''minute'' 1) = Inr frame"
    using sample_fetch_returns[of no_data_client "ymd 2024 1 1" "ymd 2024 1 20" "''AAPL''" "''minute''" 1]
    by (auto simp: ymd_eval max_ordinal_def)
  from chunk_ranges_returned[OF this]
  have mem: "(ymd 2024 1 9, ymd 2024 1 16) \<in> set ?cs"
    by (simp add: chunk_days_def chunks_step chunks_stop ymd_eval)
  from chunk_span_bound[of "sample_env no_data_client" "''AAPL''" "ymd 2024 1 1" "ymd 2024 1 20"
      "''minute''" 1] mem
  have "fst (ymd 2024 1 9, ymd 2024 1 16) \<le> snd (ymd 2024 1 9, ymd 2024 1 16)
      \<and> snd (ymd 2024 1 9, ymd 2024 1 16) - fst (ymd 2024 1 9, ymd 2024 1 16)
          \<le> (if ''minute'' = ''minute'' then 7 else 30)
      \<and> card {fst (ymd 2024 1 9, ymd 2024 1 16)..snd (ymd 2024 1 9, ymd 2024 1 16)}
          \<le> (if ''minute'' = ''minute'' then 8 else 31)"
    by blast
  with mem show ?thesis by simp
qed

section \<open>A range given in reverse\<close>

text \<open>
  The swap of \<open>main\<close> compares the date strings, not the dates: it puts 2024-02-01 and
  2024-01-01 in order, but it also swaps \<open>2024-2-01\<close> and \<open>2024-10-01\<close>, two strings that
  \<open>strptime\<close> accepts and that were in order.
\<close>

lemma swap_dates_unpadded:
  "swap_dates ''2024-2-01'' ''2024-10-01'' = (''2024-10-01'', ''2024-2-01'')"
  by (simp add: swap_dates_def)

lemma swap_dates_padded:
  "swap_dates ''2024-02-01'' ''2024-01-01'' = (''2024-01-01'', ''2024-02-01'')"
  by (simp add: swap_dates_def)

text \<open>
  Claim C4, as the specification states it: called with start after end,
  \<open>get_paginated_data\<close> swaps the two and returns what it returns for the dates in order.
  For 2024-02-01, 2024-01-01 it returns nothing, where the call with the dates in order
  returns four rows.
\<close>

theorem engine_swap_counterexample:
  "get_paginated_data (sample_env two_bar_client) ''AAPL'' (ymd 2024 2 1) (ymd 2024 1 1) ''hour'' 1
     = (Inr [], [])
   \<and> fst (get_paginated_data (sample_env two_bar_client) ''AAPL'' (ymd 2024 1 1) (ymd 2024 2 1)
            ''hour'' 1)
     = Inr (map sample_bar [1704067200000, 1704067260000, 1706745600000, 1706745660000])"
proof -
  let ?E = "sample_env two_bar_client"
  let ?r = "get_paginated_data ?E ''AAPL'' (ymd 2024 1 1) (ymd 2024 2 1) ''hour'' 1"
  have a: "get_paginated_data ?E ''AAPL'' (ymd 2024 2 1) (ymd 2024 1 1) ''hour'' 1 = (Inr [], [])"
    by (rule get_paginated_data_reversed) (simp add: ymd_eval)
  obtain frame where fr: "fst ?r = Inr frame"
    using sample_fetch_returns[of two_bar_client "ymd 2024 1 1" "ymd 2024 2 1" "''AAPL''" "''hour''" 1]
    by (auto simp: ymd_eval max_ordinal_def)
  have "frame = map sample_bar [1704067200000, 1704067260000, 1706745600000, 1706745660000]"
    unfolding frame_returned[OF fr] chunk_frames_def requests_returned[OF fr]
    by (simp add: chunk_days_def ymd_eval chunks_hour_example answer_rows_def env_eval)
  with fr a show ?thesis by simp
qed

text \<open>
  Claim C4, amended. For every pair of dates with start after end,
  \<open>get_paginated_data\<close> does not swap them and does not reject them either: the loop is
  not entered, so it sends no request, prints nothing, sleeps never, raises nothing and
  returns an empty frame, whatever the environment.
\<close>

theorem reversed_range_fetches_nothing:
  "end_dt < start_dt \<Longrightarrow>
     get_paginated_data env ticker start_dt end_dt timespan multiplier = (Inr [], [])"
  by (simp add: get_paginated_data_def pagination_loop_stop)

text \<open>The dates of the specification's example, 2024-02-01 and 2024-01-01, in an
  environment where every call of \<open>get_historical_data\<close> would raise.\<close>

theorem reversed_range_fetches_nothing_witness:
  "ymd 2024 1 1 < ymd 2024 2 1 \<and>
   get_paginated_data (no_key_env interrupted_client) ''AAPL'' (ymd 2024 2 1) (ymd 2024 1 1)
     ''hour'' 1 = (Inr [], [])"
proof -
  have h: "ymd 2024 1 1 < ymd 2024 2 1" by (simp add: ymd_eval)
  from reversed_range_fetches_nothing[OF h] h show ?thesis by simp
qed

section \<open>Waiting between requests\<close>

text \<open>
  Claim C5, as the specification states it: a fetch of \<open>n\<close> requests sleeps \<open>n - 1\<close>
  times. For 9999-12-01 to 9999-12-30 at minute granularity the program sends three
  requests and sleeps three times: after the third sleep the date addition of the next
  pass raises \<open>OverflowError\<close>.
\<close>

theorem rate_limit_waits_counterexample:
  "fst (get_paginated_data (sample_env no_data_client) ''AAPL'' (ymd 9999 12 1) (ymd 9999 12 30)
          ''minute'' 1) = Inl (OverflowError ''date value out of range'')
   \<and> chunk_ranges (snd (get_paginated_data (sample_env no_data_client) ''AAPL''
        (ymd 9999 12 1) (ymd 9999 12 30) ''minute'' 1))
     = [(ymd 9999 12 1, ymd 9999 12 8), (ymd 9999 12 9, ymd 9999 12 16),
        (ymd 9999 12 17, ymd 9999 12 24)]
   \<and> sleeps (snd (get_paginated_data (sample_env no_data_client) ''AAPL''
        (ymd 9999 12 1) (ymd 9999 12 30) ''minute'' 1)) = [12, 12, 12]"
  by (simp add: ymd_eval get_paginated_data_def pagination_loop.simps loop_body_def add_days_def
      max_ordinal_def chunk_days_def get_historical_data_def env_eval chunk_ranges_def Let_def)

text \<open>
  Claim C5, amended. In every paginated fetch, whether it returns or raises, with \<open>n\<close>
  requests sent: no sleep comes before the first request and exactly one sleep comes
  between each request and the next (\<open>waits\<close> counts the sleeps in front of each
  request); every sleep lasts 12 seconds; and the program sleeps \<open>n - 1\<close> or \<open>n\<close> times.
  In a fetch that returns it sleeps exactly \<open>n - 1\<close> times.
\<close>

theorem rate_limit_waits:
  "let es = snd (get_paginated_data env ticker start_dt end_dt timespan multiplier);
       n = length (requests es)
   in waits 0 es = (if n = 0 then [] else 0 # replicate (n - 1) 1)
      \<and> sleeps es = replicate (length (sleeps es)) 12
      \<and> n - 1 \<le> length (sleeps es) \<and> length (sleeps es) \<le> n
      \<and> ((\<exists>frame. fst (get_paginated_data env ticker start_dt end_dt timespan multiplier) = Inr frame)
           \<longrightarrow> sleeps es = replicate (n - 1) 12)"
proof -
  let ?es = "snd (get_paginated_data env ticker start_dt end_dt timespan multiplier)"
  have w: "waits 0 ?es =
             (if requests ?es = [] then [] else 0 # replicate (length (requests ?es) - 1) 1)"
    by (rule get_paginated_data_pacing(1)[OF refl])
  have s: "sleeps ?es = replicate (length (sleeps ?es)) 12"
    by (rule get_paginated_data_pacing(2)[OF refl])
  have lo: "length (requests ?es) - 1 \<le> length (sleeps ?es)"
    by (rule get_paginated_data_pacing(3)[OF refl])
  have hi: "length (sleeps ?es) \<le> length (requests ?es)"
    by (rule get_paginated_data_pacing(4)[OF refl])
  have "sleeps ?es = replicate (length (requests ?es) - 1) 12"
    if "fst (get_paginated_data env ticker start_dt end_dt timespan multiplier) = Inr frame"
    for frame
    using s get_paginated_data_pacing(5)[OF refl that] by simp
  with w s lo hi show ?thesis
    unfolding Let_def by auto
qed

text \<open>The three requests of the range 2024-01-01 to 2024-01-20 at minute granularity.\<close>

theorem rate_limit_waits_witness:
  "fst (get_paginated_data (sample_env no_data_client) ''AAPL'' (ymd 2024 1 1) (ymd 2024 1 20)
          ''minute'' 1) = Inr []
   \<and> length (requests (snd (get_paginated_data (sample_env no_data_client) ''AAPL''
        (ymd 2024 1 1) (ymd 2024 1 20) ''minute'' 1))) = 3
   \<and> sleeps (snd (get_paginated_data (sample_env no_data_client) ''AAPL''
        (ymd 2024 1 1) (ymd 2024 1 20) ''minute'' 1)) = [12, 12]
   \<and> waits 0 (snd (get_paginated_data (sample_env no_data_client) ''AAPL''
        (ymd 2024 1 1) (ymd 2024 1 20) ''minute'' 1)) = [0, 1, 1]"
proof -
  let ?E = "sample_env no_data_client"
  let ?r = "get_paginated_data ?E ''AAPL'' (ymd 2024 1 1) (ymd 2024 1 20) ''minute'' 1"
  obtain frame where fr: "fst ?r = Inr frame"
    using sample_fetch_returns[of no_data_client "ymd 2024 1 1" "ymd 2024 1 20" "''AAPL''" "''minute''" 1]
    by (auto simp: ymd_eval max_ordinal_def)
  have "answer_rows ?E r = []" for r
    by (simp add: answer_rows_def env_eval)
  with frame_returned[OF fr] have f: "fst ?r = Inr []"
    using fr by (simp add: chunk_frames_def)
  have n: "length (requests (snd ?r)) = 3"
    unfolding requests_returned[OF fr]
    by (simp add: chunk_days_def ymd_eval chunks_minute_example)
  from rate_limit_waits[of ?E "''AAPL''" "ymd 2024 1 1" "ymd 2024 1 20" "''minute''" 1] f
  show ?thesis unfolding Let_def n by (simp add: numeral_3_eq_3)
qed

section \<open>Failed and empty chunks\<close>

lemma loop_body_keeps_all_data:
  "take (length (all_data st))
     (all_data (snd (loop_body env ticker timespan multiplier cdays end_dt st))) = all_data st"
  by (auto simp: loop_body_def Let_def split: sum.splits prod.splits)

lemma loop_body_no_rows:
  assumes "\<And>b. fst (get_historical_data env ticker (current_start st) b timespan multiplier) = Inr []"
  shows "all_data (snd (loop_body env ticker timespan multiplier cdays end_dt st)) = all_data st"
proof (cases "add_days (current_start st) (int cdays)")
  case (Inl e)
  then show ?thesis by (simp add: loop_body_def)
next
  case (Inr d)
  define ce where "ce = (if d > end_dt then end_dt else d)"
  obtain evs
    where r: "get_historical_data env ticker (current_start st) ce timespan multiplier = (Inr [], evs)"
    using assms[of ce]
    by (cases "get_historical_data env ticker (current_start st) ce timespan multiplier") auto
  show ?thesis
    using Inr r ce_def by (cases "add_days ce 1") (simp_all add: loop_body_def Let_def)
qed

lemma get_historical_data_caught:
  assumes "rest_client env (api_key env) = Inr client" and "is_Exception e"
    and "client (chunk_request ticker timespan multiplier (a, b)) = Inl e
         \<or> (\<exists>aggs. client (chunk_request ticker timespan multiplier (a, b)) = Inr aggs
                  \<and> build_rows (to_datetime env) aggs = Inl e)"
  shows "get_historical_data env ticker a b timespan multiplier =
           (Inr [], [Print (Requesting ticker a b),
                     ListAggs (chunk_request ticker timespan multiplier (a, b))]
                    @ error_report (str e))"
  using assms
  by (auto simp: get_historical_data_def except_Exception_def chunk_request_def Let_def)

lemma get_historical_data_no_data:
  assumes "rest_client env (api_key env) = Inr client"
    and "client (chunk_request ticker timespan multiplier (a, b)) = Inr []"
  shows "get_historical_data env ticker a b timespan multiplier =
           (Inr [], [Print (Requesting ticker a b),
                     ListAggs (chunk_request ticker timespan multiplier (a, b)),
                     Print NoDataReturned])"
  using assms by (simp add: get_historical_data_def chunk_request_def)

lemma get_historical_data_rows:
  assumes "rest_client env (api_key env) = Inr client"
    and "client (chunk_request ticker timespan multiplier (a, b)) = Inr aggs"
    and "build_rows (to_datetime env) aggs = Inr df"
  shows "fst (get_historical_data env ticker a b timespan multiplier) = Inr df"
  using assms by (cases aggs) (simp_all add: get_historical_data_def chunk_request_def)

lemma build_rows_rows:
  "build_rows to_dt aggs = Inr df \<Longrightarrow> map Inr df = map (bar_of_agg to_dt) aggs"
  by (induction aggs arbitrary: df) (auto simp: and_then_def split: sum.splits)

text \<open>
  Claim C6, as the specification states it: the failure of one chunk never ends the
  fetch. Without an API key the constructor of the client raises in the first call of
  \<open>get_historical_data\<close>, before its \<open>try\<close> statement: the fetch ends with that exception
  after its first line of output, and no chunk is requested.
\<close>

theorem chunk_failure_does_not_abort_counterexample:
  "get_paginated_data (no_key_env two_bar_client) ''AAPL'' (ymd 2024 1 1) (ymd 2024 1 20)
     ''minute'' 1
   = (Inl (Exception ''Must specify env var POLYGON_API_KEY or pass api_key in constructor''),
      [Print (FetchingChunk (ymd 2024 1 1) (ymd 2024 1 8))])"
  by (simp add: ymd_eval get_paginated_data_def pagination_loop_step loop_body_def add_days_def
      max_ordinal_def chunk_days_def get_historical_data_def no_key_env_def
      polygon_rest_client_def Let_def)

text \<open>
  Claim C6, amended. Let the client be constructible, the start be a date, the end date
  plus \<open>chunk_days\<close> be not after 9999-12-31, and let every exception that a request or
  the making of its rows raises be derived from \<open>Exception\<close>. Then whichever chunks fail,
  the fetch returns; the chunks requested cover the whole range, so every chunk after a
  failed one is still asked for; and the frame returned holds, in chunk order, exactly
  the rows of the chunks that did not fail (\<open>chunk_frames\<close> gives a failed chunk no
  rows). In every case a pass through the loop body keeps the frames gathered before it.
\<close>

theorem chunk_failure_does_not_abort:
  "(1 \<le> start_dt \<and> end_dt + int (chunk_days timespan) \<le> max_ordinal
      \<and> rest_client env (api_key env) = Inr client
      \<and> (\<forall>req e. client req = Inl e \<longrightarrow> is_Exception e)
      \<and> (\<forall>req aggs e. client req = Inr aggs \<and> build_rows (to_datetime env) aggs = Inl e
            \<longrightarrow> is_Exception e)
    \<longrightarrow> fst (get_paginated_data env ticker start_dt end_dt timespan multiplier)
          = Inr (concat (chunk_frames env
                   (snd (get_paginated_data env ticker start_dt end_dt timespan multiplier))))
        \<and> (\<Union>c \<in> set (chunk_ranges
                  (snd (get_paginated_data env ticker start_dt end_dt timespan multiplier))).
              {fst c..snd c}) = {start_dt..end_dt})
   \<and> take (length (all_data st))
        (all_data (snd (loop_body env ticker timespan multiplier cdays end_dt st))) = all_data st"
proof (intro conjI impI)
  assume h: "1 \<le> start_dt \<and> end_dt + int (chunk_days timespan) \<le> max_ordinal
      \<and> rest_client env (api_key env) = Inr client
      \<and> (\<forall>req e. client req = Inl e \<longrightarrow> is_Exception e)
      \<and> (\<forall>req aggs e. client req = Inr aggs \<and> build_rows (to_datetime env) aggs = Inl e
            \<longrightarrow> is_Exception e)"
  have "\<exists>df. fst (get_historical_data env ticker a b timespan multiplier) = Inr df" for a b
    using h by (intro get_historical_data_returns[of env client]) blast+
  with h obtain frame
    where fr: "fst (get_paginated_data env ticker start_dt end_dt timespan multiplier) = Inr frame"
    using get_paginated_data_does_not_raise[of start_dt end_dt timespan env ticker multiplier]
    by blast
  from frame_returned[OF fr] fr
  show "fst (get_paginated_data env ticker start_dt end_dt timespan multiplier)
          = Inr (concat (chunk_frames env
                   (snd (get_paginated_data env ticker start_dt end_dt timespan multiplier))))"
    by simp
  show "(\<Union>c \<in> set (chunk_ranges
                  (snd (get_paginated_data env ticker start_dt end_dt timespan multiplier))).
              {fst c..snd c}) = {start_dt..end_dt}"
    unfolding chunk_ranges_returned[OF fr] by (rule chunks_union)
next
  show "take (length (all_data st))
        (all_data (snd (loop_body env ticker timespan multiplier cdays end_dt st))) = all_data st"
    by (rule loop_body_keeps_all_data)
qed

text \<open>
  The specification's example: the first chunk raises an error containing
  \<open>NOT_AUTHORIZED\<close>; the other two chunks are still requested and their rows returned.
\<close>

theorem chunk_failure_does_not_abort_witness:
  "1 \<le> ymd 2024 1 1 \<and> ymd 2024 1 20 + int (chunk_days ''minute'') \<le> max_ordinal
   \<and> rest_client (sample_env unauthorized_first_client)
        (api_key (sample_env unauthorized_first_client)) = Inr unauthorized_first_client
   \<and> unauthorized_first_client (chunk_request ''AAPL'' ''minute'' 1 (ymd 2024 1 1, ymd 2024 1 8))
     = Inl (Exception ''NOT_AUTHORIZED: upgrade your plan'')
   \<and> chunk_ranges (snd (get_paginated_data (sample_env unauthorized_first_client) ''AAPL''
        (ymd 2024 1 1) (ymd 2024 1 20) ''minute'' 1))
     = [(ymd 2024 1 1, ymd 2024 1 8), (ymd 2024 1 9, ymd 2024 1 16), (ymd 2024 1 17, ymd 2024 1 20)]
   \<and> fst (get_paginated_data (sample_env unauthorized_first_client) ''AAPL''
        (ymd 2024 1 1) (ymd 2024 1 20) ''minute'' 1)
     = Inr (map sample_bar [1704758400000, 1704758460000, 1705449600000, 1705449660000])"
proof -
  let ?E = "sample_env unauthorized_first_client"
  let ?r = "get_paginated_data ?E ''AAPL'' (ymd 2024 1 1) (ymd 2024 1 20) ''minute'' 1"
  have a: "unauthorized_first_client (chunk_request ''AAPL'' ''minute'' 1 (ymd 2024 1 1, ymd 2024 1 8))
     = Inl (Exception ''NOT_AUTHORIZED: upgrade your plan'')"
    by (simp add: unauthorized_first_client_def chunk_request_def ymd_eval)
  have h1: "1 \<le> ymd 2024 1 1" "ymd 2024 1 20 + int (chunk_days ''minute'') \<le> max_ordinal"
    by (simp_all add: ymd_eval chunk_days_def max_ordinal_def)
  have h2: "rest_client ?E (api_key ?E) = Inr unauthorized_first_client"
    by (simp add: sample_env_def polygon_rest_client_def)
  have h3: "\<forall>req e. unauthorized_first_client req = Inl e \<longrightarrow> is_Exception e"
    by (auto simp: unauthorized_first_client_def two_bar_client_def split: if_splits)
  have h4: "\<forall>req aggs e. unauthorized_first_client req = Inr aggs
              \<and> build_rows (to_datetime ?E) aggs = Inl e \<longrightarrow> is_Exception e"
  proof (intro allI impI)
    fix req aggs e
    assume x: "unauthorized_first_client req = Inr aggs \<and> build_rows (to_datetime ?E) aggs = Inl e"
    then have "\<exists>ts. aggs = map sample_agg ts"
      by (auto simp: unauthorized_first_client_def two_bar_client_def split: if_splits
          intro: exI[of _ "[x, y]" for x y])
    then obtain ts where "aggs = map sample_agg ts" ..
    with x show "is_Exception e"
      using build_rows_sample_aggs[of ts e] by (simp add: sample_env_def)
  qed
  from chunk_failure_does_not_abort[of "ymd 2024 1 1" "ymd 2024 1 20" "''minute''" ?E
      unauthorized_first_client "''AAPL''" 1] h1 h2 h3 h4
  have fr: "fst ?r = Inr (concat (chunk_frames ?E (snd ?r)))"
    by blast
  have b: "chunk_ranges (snd ?r)
     = [(ymd 2024 1 1, ymd 2024 1 8), (ymd 2024 1 9, ymd 2024 1 16), (ymd 2024 1 17, ymd 2024 1 20)]"
    unfolding chunk_ranges_returned[OF fr]
    by (simp add: chunk_days_def ymd_eval chunks_minute_example)
  have "concat (chunk_frames ?E (snd ?r))
          = map sample_bar [1704758400000, 1704758460000, 1705449600000, 1705449660000]"
    unfolding chunk_frames_def requests_returned[OF fr]
    by (simp add: chunk_days_def ymd_eval chunks_minute_example answer_rows_def env_eval)
  with fr a b h1 h2 show ?thesis by simp
qed

text \<open>
  Claim C7, as the specification states it: when every chunk fails or has no records the
  fetch returns an empty frame and raises nothing. For 9999-12-20 to 9999-12-31 at minute
  granularity, with a client that has no records, the one chunk requested has no
  records, and the fetch raises \<open>OverflowError\<close>.
\<close>

theorem empty_chunks_and_empty_fetch_counterexample:
  "no_data_client (chunk_request ''AAPL'' ''minute'' 1 (ymd 9999 12 20, ymd 9999 12 27)) = Inr []
   \<and> get_paginated_data (sample_env no_data_client) ''AAPL'' (ymd 9999 12 20) (ymd 9999 12 31)
       ''minute'' 1
     = (Inl (OverflowError ''date value out of range''),
        [Print (FetchingChunk (ymd 9999 12 20) (ymd 9999 12 27)),
         Print (Requesting ''AAPL'' (ymd 9999 12 20) (ymd 9999 12 27)),
         ListAggs (chunk_request ''AAPL'' ''minute'' 1 (ymd 9999 12 20, ymd 9999 12 27)),
         Print NoDataReturned, Print Waiting, Sleep 12])"
  by (simp add: ymd_eval get_paginated_data_def pagination_loop.simps loop_body_def add_days_def
      max_ordinal_def chunk_days_def get_historical_data_def env_eval Let_def)

text \<open>
  Claim C7, amended. A chunk answered with no aggregates is not handled as an error:
  \<open>get_historical_data\<close> prints that no data came back and returns the empty frame,
  without the error report; and a pass of the loop whose chunk brings the empty frame
  leaves the gathered frames unchanged. When the client can be built, the start is a
  date, the end date plus \<open>chunk_days\<close> is not after 9999-12-31, and every request is
  answered with no aggregates or with an exception derived from \<open>Exception\<close>,
  \<open>get_paginated_data\<close> returns the empty frame and raises nothing. When the range has no
  chunk at all (start after end) it returns the empty frame as well, having done nothing.
\<close>

theorem empty_chunks_and_empty_fetch:
  "(rest_client env (api_key env) = Inr client
      \<and> client (chunk_request ticker timespan multiplier (a, b)) = Inr [] \<longrightarrow>
      get_historical_data env ticker a b timespan multiplier =
        (Inr [], [Print (Requesting ticker a b),
                  ListAggs (chunk_request ticker timespan multiplier (a, b)),
                  Print NoDataReturned]))
   \<and> ((\<forall>b. fst (get_historical_data env ticker (current_start st) b timespan multiplier) = Inr [])
        \<longrightarrow> all_data (snd (loop_body env ticker timespan multiplier cdays end_dt st)) = all_data st)
   \<and> (1 \<le> start_dt \<and> end_dt + int (chunk_days timespan) \<le> max_ordinal
      \<and> rest_client env (api_key env) = Inr client
      \<and> (\<forall>req. (\<exists>e. client req = Inl e \<and> is_Exception e) \<or> client req = Inr []) \<longrightarrow>
      fst (get_paginated_data env ticker start_dt end_dt timespan multiplier) = Inr [])
   \<and> (end_dt < start_dt \<longrightarrow>
      get_paginated_data env ticker start_dt end_dt timespan multiplier = (Inr [], []))"
proof (intro conjI impI)
  assume "rest_client env (api_key env) = Inr client
      \<and> client (chunk_request ticker timespan multiplier (a, b)) = Inr []"
  then show "get_historical_data env ticker a b timespan multiplier =
        (Inr [], [Print (Requesting ticker a b),
                  ListAggs (chunk_request ticker timespan multiplier (a, b)),
                  Print NoDataReturned])"
    by (intro get_historical_data_no_data) blast+
next
  assume "\<forall>b. fst (get_historical_data env ticker (current_start st) b timespan multiplier) = Inr []"
  then show "all_data (snd (loop_body env ticker timespan multiplier cdays end_dt st)) = all_data st"
    by (intro loop_body_no_rows) simp
next
  assume h: "1 \<le> start_dt \<and> end_dt + int (chunk_days timespan) \<le> max_ordinal
      \<and> rest_client env (api_key env) = Inr client
      \<and> (\<forall>req. (\<exists>e. client req = Inl e \<and> is_Exception e) \<or> client req = Inr [])"
  have e: "fst (get_historical_data env ticker x y timespan multiplier) = Inr []" for x y
  proof -
    from h consider e where "client (chunk_request ticker timespan multiplier (x, y)) = Inl e"
        "is_Exception e"
      | "client (chunk_request ticker timespan multiplier (x, y)) = Inr []"
      by blast
    then show ?thesis
    proof cases
      case 1
      with h get_historical_data_caught[of env client e ticker timespan multiplier x y]
      show ?thesis by simp
    next
      case 2
      with h get_historical_data_no_data[of env client ticker timespan multiplier x y]
      show ?thesis by simp
    qed
  qed
  then have "\<exists>df. fst (get_historical_data env ticker x y timespan multiplier) = Inr df" for x y
    by blast
  with h obtain frame
    where fr: "fst (get_paginated_data env ticker start_dt end_dt timespan multiplier) = Inr frame"
    using get_paginated_data_does_not_raise[of start_dt end_dt timespan env ticker multiplier]
    by blast
  have "chunk_frame env ticker timespan multiplier c = []" for c
    using e[of "fst c" "snd c"] by (simp add: chunk_frame_def)
  with get_paginated_data_returned(2)[OF fr] have "frame = []" by simp
  with fr show "fst (get_paginated_data env ticker start_dt end_dt timespan multiplier) = Inr []"
    by simp
next
  assume "end_dt < start_dt"
  then show "get_paginated_data env ticker start_dt end_dt timespan multiplier = (Inr [], [])"
    by (rule get_paginated_data_reversed)
qed

text \<open>A client with no data, on a range of three chunks and on a reversed range.\<close>

theorem empty_chunks_and_empty_fetch_witness:
  "rest_client (sample_env no_data_client) (api_key (sample_env no_data_client)) = Inr no_data_client
   \<and> no_data_client (chunk_request ''AAPL'' ''minute'' 1 (ymd 2024 1 1, ymd 2024 1 8)) = Inr []
   \<and> get_historical_data (sample_env no_data_client) ''AAPL'' (ymd 2024 1 1) (ymd 2024 1 8)
        ''minute'' 1 =
        (Inr [], [Print (Requesting ''AAPL'' (ymd 2024 1 1) (ymd 2024 1 8)),
                  ListAggs (chunk_request ''AAPL'' ''minute'' 1 (ymd 2024 1 1, ymd 2024 1 8)),
                  Print NoDataReturned])
   \<and> all_data (snd (loop_body (sample_env no_data_client) ''AAPL'' ''minute'' 1 7 (ymd 2024 1 20)
        \<lparr> all_data = [[sample_bar 0]], current_start = ymd 2024 1 1, out = [] \<rparr>))
       = [[sample_bar 0]]
   \<and> 1 \<le> ymd 2024 1 1 \<and> ymd 2024 1 20 + int (chunk_days ''minute'') \<le> max_ordinal
   \<and> fst (get_paginated_data (sample_env no_data_client) ''AAPL'' (ymd 2024 1 1) (ymd 2024 1 20)
            ''minute'' 1) = Inr []
   \<and> ymd 2024 1 1 < ymd 2024 2 1
   \<and> get_paginated_data (sample_env no_data_client) ''AAPL'' (ymd 2024 2 1) (ymd 2024 1 1)
        ''minute'' 1 = (Inr [], [])"
proof -
  let ?E = "sample_env no_data_client"
  let ?st = "\<lparr> all_data = [[sample_bar 0]], current_start = ymd 2024 1 1, out = [] \<rparr>"
  have c: "rest_client ?E (api_key ?E) = Inr no_data_client"
    by (simp add: sample_env_def polygon_rest_client_def)
  have nd: "no_data_client r = Inr []" for r
    by (simp add: no_data_client_def)
  have h: "1 \<le> ymd 2024 1 1" "ymd 2024 1 20 + int (chunk_days ''minute'') \<le> max_ordinal"
    "ymd 2024 1 1 < ymd 2024 2 1"
    by (simp_all add: ymd_eval chunk_days_def max_ordinal_def)
  note a = empty_chunks_and_empty_fetch[where env = ?E and client = no_data_client
      and ticker = "''AAPL''" and timespan = "''minute''" and multiplier = 1 and st = ?st
      and cdays = 7 and end_dt = "ymd 2024 1 20" and start_dt = "ymd 2024 1 1"
      and a = "ymd 2024 1 1" and b = "ymd 2024 1 8"]
  note b = empty_chunks_and_empty_fetch[where env = ?E and client = no_data_client
      and ticker = "''AAPL''" and timespan = "''minute''" and multiplier = 1 and st = ?st
      and cdays = 7 and end_dt = "ymd 2024 1 1" and start_dt = "ymd 2024 2 1"
      and a = "ymd 2024 1 1" and b = "ymd 2024 1 8"]
  have 1: "get_historical_data ?E ''AAPL'' x y ''minute'' 1 =
        (Inr [], [Print (Requesting ''AAPL'' x y),
                  ListAggs (chunk_request ''AAPL'' ''minute'' 1 (x, y)),
                  Print NoDataReturned])" for x y
    using c nd by (intro get_historical_data_no_data) auto
  have 2: "all_data (snd (loop_body ?E ''AAPL'' ''minute'' 1 7 (ymd 2024 1 20) ?st))
       = [[sample_bar 0]]"
    using a 1 by simp
  have 3: "fst (get_paginated_data ?E ''AAPL'' (ymd 2024 1 1) (ymd 2024 1 20) ''minute'' 1) = Inr []"
    using a c nd h(1,2) by blast
  have 4: "get_paginated_data ?E ''AAPL'' (ymd 2024 2 1) (ymd 2024 1 1) ''minute'' 1 = (Inr [], [])"
    using b h(3) by blast
  from c nd 1 2 3 4 h show ?thesis by blast
qed

section \<open>The merged frame\<close>

lemma sorted_wrt_concat_frames:
  "(\<forall>f \<in> set fs. sorted_wrt P f) \<Longrightarrow>
   sorted_wrt (\<lambda>f g. \<forall>a \<in> set f. \<forall>b \<in> set g. P a b) fs \<Longrightarrow>
   sorted_wrt P (concat fs)"
  by (induction fs) (auto simp: sorted_wrt_append)

text \<open>
  Claim C8. Suppose the rows of every chunk are strictly increasing in timestamp, and
  the chunks do not overlap in time: every row of a chunk is earlier than every row of
  each chunk requested after it. Then the frame that \<open>get_paginated_data\<close> returns, the
  chunks' rows appended in chunk order, is strictly increasing in timestamp, and no
  timestamp occurs twice. (A fetch that raises returns no frame.)
\<close>

theorem merged_series_strictly_increasing:
  assumes "\<forall>f \<in> set (chunk_frames env
                (snd (get_paginated_data env ticker start_dt end_dt timespan multiplier))).
             sorted_wrt (<) (map row_timestamp f)"
    and "sorted_wrt (\<lambda>f g. \<forall>a \<in> set f. \<forall>b \<in> set g. row_timestamp a < row_timestamp b)
           (chunk_frames env
              (snd (get_paginated_data env ticker start_dt end_dt timespan multiplier)))"
    and "fst (get_paginated_data env ticker start_dt end_dt timespan multiplier) = Inr frame"
  shows "sorted_wrt (<) (map row_timestamp frame) \<and> distinct (map row_timestamp frame)"
proof -
  let ?fs = "chunk_frames env
               (snd (get_paginated_data env ticker start_dt end_dt timespan multiplier))"
  have "\<forall>f \<in> set ?fs. sorted_wrt (\<lambda>a b. row_timestamp a < row_timestamp b) f"
    using assms(1) by (simp add: sorted_wrt_map)
  then have "sorted_wrt (\<lambda>a b. row_timestamp a < row_timestamp b) (concat ?fs)"
    using assms(2) by (rule sorted_wrt_concat_frames)
  then have "sorted_wrt (<) (map row_timestamp (concat ?fs))"
    by (simp add: sorted_wrt_map)
  then show ?thesis
    unfolding frame_returned[OF assms(3)] by (simp add: strict_sorted_iff)
qed

text \<open>Three chunks of two bars each, a minute apart, at the start of each chunk.\<close>

theorem merged_series_strictly_increasing_witness:
  "map (map row_timestamp) (chunk_frames (sample_env two_bar_client)
      (snd (get_paginated_data (sample_env two_bar_client) ''AAPL'' (ymd 2024 1 1) (ymd 2024 1 20)
              ''minute'' 1)))
     = [[1704067200000, 1704067260000], [1704758400000, 1704758460000],
        [1705449600000, 1705449660000]]
   \<and> fst (get_paginated_data (sample_env two_bar_client) ''AAPL'' (ymd 2024 1 1) (ymd 2024 1 20)
            ''minute'' 1)
     = Inr (map sample_bar [1704067200000, 1704067260000, 1704758400000, 1704758460000,
                            1705449600000, 1705449660000])
   \<and> sorted_wrt (<) (map row_timestamp
        (map sample_bar [1704067200000, 1704067260000, 1704758400000, 1704758460000,
                         1705449600000, 1705449660000]))
   \<and> distinct (map row_timestamp
        (map sample_bar [1704067200000, 1704067260000, 1704758400000, 1704758460000,
                         1705449600000, 1705449660000]))"
proof -
  let ?E = "sample_env two_bar_client"
  let ?r = "get_paginated_data ?E ''AAPL'' (ymd 2024 1 1) (ymd 2024 1 20) ''minute'' 1"
  let ?F = "map sample_bar [1704067200000, 1704067260000, 1704758400000, 1704758460000,
                            1705449600000, 1705449660000]"
  obtain frame where fr: "fst ?r = Inr frame"
    using sample_fetch_returns[of two_bar_client "ymd 2024 1 1" "ymd 2024 1 20" "''AAPL''" "''minute''" 1]
    by (auto simp: ymd_eval max_ordinal_def)
  have cf: "chunk_frames ?E (snd ?r) =
              [map sample_bar [1704067200000, 1704067260000],
               map sample_bar [1704758400000, 1704758460000],
               map sample_bar [1705449600000, 1705449660000]]"
    unfolding chunk_frames_def requests_returned[OF fr]
    by (simp add: chunk_days_def ymd_eval chunks_minute_example answer_rows_def env_eval)
  have fs: "map (map row_timestamp) (chunk_frames ?E (snd ?r))
     = [[1704067200000, 1704067260000], [1704758400000, 1704758460000],
        [1705449600000, 1705449660000]]"
    unfolding cf by (simp add: sample_bar_def)
  have h1: "\<forall>f \<in> set (chunk_frames ?E (snd ?r)). sorted_wrt (<) (map row_timestamp f)"
    unfolding cf by (simp add: sample_bar_def)
  have h2: "sorted_wrt (\<lambda>f g. \<forall>a \<in> set f. \<forall>b \<in> set g. row_timestamp a < row_timestamp b)
           (chunk_frames ?E (snd ?r))"
    unfolding cf by (simp add: sample_bar_def)
  have f: "frame = ?F"
    unfolding frame_returned[OF fr] cf by simp
  from merged_series_strictly_increasing[OF h1 h2 fr] fs fr f show ?thesis by simp
qed

section \<open>Rows from aggregates\<close>

text \<open>
  Claim C9, as the specification states it: every raw record becomes a row, with
  \<open>vwap\<close> and \<open>transactions\<close> absent when the record lacks them. A record that lacks
  both and whose timestamp is beyond the range of a \<open>Timestamp\<close> becomes no row: the
  conversion raises, and \<open>get_historical_data\<close> returns the empty frame for the whole
  answer.
\<close>

theorem optional_fields_default_to_absent_counterexample:
  "agg_vwap (sample_agg 100000000000000000) = Inl (AttributeError ''object has no attribute vwap'')
   \<and> bar_of_agg pandas_to_datetime (sample_agg 100000000000000000)
       = Inl (Exception ''Out of bounds nanosecond timestamp'')
   \<and> far_future_client (chunk_request ''AAPL'' ''minute'' 1 (ymd 2024 1 1, ymd 2024 1 1))
       = Inr [sample_agg 100000000000000000]
   \<and> fst (get_historical_data (sample_env far_future_client) ''AAPL'' (ymd 2024 1 1) (ymd 2024 1 1)
            ''minute'' 1) = Inr []"
  by (simp add: get_historical_data_def except_Exception_def env_eval Let_def)

text \<open>
  Claim C9, amended. For every raw record whose timestamp, open, high, low, close and
  volume can be read and whose timestamp \<open>pd.to_datetime\<close> converts, the row made from
  it has the converted timestamp and copies of the other five; its \<open>vwap\<close> and
  \<open>transactions\<close> are \<open>None\<close> when the record has no such attribute and the
  attribute's value otherwise, so lacking them does not fail the record. When every
  record of an answer becomes a row, the frame has exactly these rows, one for each
  record, in order, and \<open>get_historical_data\<close> returns it.
\<close>

theorem optional_fields_default_to_absent:
  "(agg_timestamp a = Inr t \<and> to_dt t = Inr ts
      \<and> agg_open a = Inr op \<and> agg_high a = Inr hi \<and> agg_low a = Inr lo
      \<and> agg_close a = Inr cl \<and> agg_volume a = Inr vol
      \<and> (agg_vwap a = Inr vw \<or> (\<exists>s. agg_vwap a = Inl (AttributeError s)) \<and> vw = None)
      \<and> (agg_transactions a = Inr tr
           \<or> (\<exists>s. agg_transactions a = Inl (AttributeError s)) \<and> tr = None) \<longrightarrow>
      bar_of_agg to_dt a =
        Inr \<lparr> row_timestamp = ts, row_open = op, row_high = hi, row_low = lo, row_close = cl,
              row_volume = vol, row_vwap = vw, row_transactions = tr \<rparr>)
   \<and> (build_rows to_dt aggs = Inr df \<longrightarrow> map Inr df = map (bar_of_agg to_dt) aggs)
   \<and> (rest_client env (api_key env) = Inr client
      \<and> client (chunk_request ticker timespan multiplier (start_date, end_date)) = Inr aggs
      \<and> build_rows (to_datetime env) aggs = Inr df \<longrightarrow>
      fst (get_historical_data env ticker start_date end_date timespan multiplier) = Inr df)"
proof (intro conjI impI)
  assume "agg_timestamp a = Inr t \<and> to_dt t = Inr ts
      \<and> agg_open a = Inr op \<and> agg_high a = Inr hi \<and> agg_low a = Inr lo
      \<and> agg_close a = Inr cl \<and> agg_volume a = Inr vol
      \<and> (agg_vwap a = Inr vw \<or> (\<exists>s. agg_vwap a = Inl (AttributeError s)) \<and> vw = None)
      \<and> (agg_transactions a = Inr tr
           \<or> (\<exists>s. agg_transactions a = Inl (AttributeError s)) \<and> tr = None)"
  then show "bar_of_agg to_dt a =
        Inr \<lparr> row_timestamp = ts, row_open = op, row_high = hi, row_low = lo, row_close = cl,
              row_volume = vol, row_vwap = vw, row_transactions = tr \<rparr>"
    by (auto simp: bar_of_agg_def and_then_def getattr_def)
next
  assume "build_rows to_dt aggs = Inr df"
  then show "map Inr df = map (bar_of_agg to_dt) aggs"
    by (rule build_rows_rows)
next
  assume "rest_client env (api_key env) = Inr client
      \<and> client (chunk_request ticker timespan multiplier (start_date, end_date)) = Inr aggs
      \<and> build_rows (to_datetime env) aggs = Inr df"
  then show "fst (get_historical_data env ticker start_date end_date timespan multiplier) = Inr df"
    by (intro get_historical_data_rows) blast+
qed

text \<open>
  The specification's example: two aggregates with timestamps 1704067200000 and
  1704067260000 and neither optional attribute.
\<close>

theorem optional_fields_default_to_absent_witness:
  "agg_vwap (sample_agg 1704067200000) = Inl (AttributeError ''object has no attribute vwap'')
   \<and> agg_transactions (sample_agg 1704067200000)
       = Inl (AttributeError ''object has no attribute transactions'')
   \<and> bar_of_agg pandas_to_datetime (sample_agg 1704067200000) =
        Inr \<lparr> row_timestamp = 1704067200000, row_open = 100, row_high = 110, row_low = 90,
              row_close = 105, row_volume = 1000, row_vwap = None, row_transactions = None \<rparr>
   \<and> rest_client (sample_env two_bar_client) (api_key (sample_env two_bar_client))
       = Inr two_bar_client
   \<and> two_bar_client (chunk_request ''AAPL'' ''minute'' 1 (ymd 2024 1 1, ymd 2024 1 1))
       = Inr [sample_agg 1704067200000, sample_agg 1704067260000]
   \<and> build_rows pandas_to_datetime [sample_agg 1704067200000, sample_agg 1704067260000]
       = Inr [sample_bar 1704067200000, sample_bar 1704067260000]
   \<and> map Inr [sample_bar 1704067200000, sample_bar 1704067260000]
       = map (bar_of_agg pandas_to_datetime) [sample_agg 1704067200000, sample_agg 1704067260000]
   \<and> fst (get_historical_data (sample_env two_bar_client) ''AAPL'' (ymd 2024 1 1) (ymd 2024 1 1)
            ''minute'' 1)
       = Inr [sample_bar 1704067200000, sample_bar 1704067260000]"
proof -
  let ?E = "sample_env two_bar_client"
  let ?aggs = "[sample_agg 1704067200000, sample_agg 1704067260000]"
  let ?df = "[sample_bar 1704067200000, sample_bar 1704067260000]"
  have v: "agg_vwap (sample_agg 1704067200000) = Inl (AttributeError ''object has no attribute vwap'')"
    "agg_transactions (sample_agg 1704067200000)
       = Inl (AttributeError ''object has no attribute transactions'')"
    by (simp_all add: sample_agg_def)
  have c: "rest_client ?E (api_key ?E) = Inr two_bar_client"
    by (simp add: sample_env_def polygon_rest_client_def)
  have r: "two_bar_client (chunk_request ''AAPL'' ''minute'' 1 (ymd 2024 1 1, ymd 2024 1 1)) = Inr ?aggs"
    by (simp add: two_bar_client_def chunk_request_def midnight_ms_def ymd_eval)
  have b: "build_rows (to_datetime ?E) ?aggs = Inr ?df"
    by (simp add: sample_env_def bar_of_sample_agg and_then_def)
  note t = optional_fields_default_to_absent[where a = "sample_agg 1704067200000"
      and t = 1704067200000 and to_dt = pandas_to_datetime and ts = 1704067200000
      and op = 100 and hi = 110 and lo = 90 and cl = 105 and vol = 1000
      and vw = None and tr = None and env = ?E and client = two_bar_client
      and ticker = "''AAPL''" and timespan = "''minute''" and multiplier = 1
      and start_date = "ymd 2024 1 1" and end_date = "ymd 2024 1 1"
      and aggs = ?aggs and df = ?df]
  have 1: "bar_of_agg pandas_to_datetime (sample_agg 1704067200000) =
        Inr \<lparr> row_timestamp = 1704067200000, row_open = 100, row_high = 110, row_low = 90,
              row_close = 105, row_volume = 1000, row_vwap = None, row_transactions = None \<rparr>"
    using t by (simp add: sample_agg_def pandas_to_datetime_def)
  have 2: "fst (get_historical_data ?E ''AAPL'' (ymd 2024 1 1) (ymd 2024 1 1) ''minute'' 1) = Inr ?df"
    using t c r b by blast
  have b': "build_rows pandas_to_datetime ?aggs = Inr ?df"
    using b by (simp add: sample_env_def)
  have 3: "map Inr ?df = map (bar_of_agg pandas_to_datetime) ?aggs"
    using t b' by blast
  from v 1 c r b' 3 2 show ?thesis by blast
qed

section \<open>Provider errors\<close>

text \<open>
  Claim C10, as stated: \<open>get_historical_data\<close> catches every exception of the provider
  client. The exception the constructor raises when no API key is set leaves the
  function, as it is raised before the \<open>try\<close> statement; and so does a
  \<open>KeyboardInterrupt\<close> during the request, which \<open>except Exception\<close> does not catch.
\<close>

theorem provider_error_gives_empty_frame_counterexample:
  "get_historical_data (no_key_env two_bar_client) ''AAPL'' (ymd 2024 1 1) (ymd 2024 1 8)
     ''minute'' 1
     = (Inl (Exception ''Must specify env var POLYGON_API_KEY or pass api_key in constructor''), [])
   \<and> get_historical_data (sample_env interrupted_client) ''AAPL'' (ymd 2024 1 1) (ymd 2024 1 8)
       ''minute'' 1
     = (Inl (BaseException ''KeyboardInterrupt''),
        [Print (Requesting ''AAPL'' (ymd 2024 1 1) (ymd 2024 1 8)),
         ListAggs (chunk_request ''AAPL'' ''minute'' 1 (ymd 2024 1 1, ymd 2024 1 8))])"
  by (simp add: get_historical_data_def except_Exception_def env_eval Let_def)

text \<open>
  Claim C10, amended. Once the client is built, every exception derived from
  \<open>Exception\<close> that the request or the making of the rows raises, with whatever text, is
  caught: \<open>get_historical_data\<close> returns the empty frame. The text of the exception
  decides only which lines of \<open>error_report\<close> are printed: the report sends no request
  and sleeps never. The only exceptions that leave the function are those of the
  constructor and those not derived from \<open>Exception\<close>.
\<close>

theorem provider_error_gives_empty_frame:
  "(rest_client env (api_key env) = Inr client \<and> is_Exception e
      \<and> (client (chunk_request ticker timespan multiplier (start_date, end_date)) = Inl e
          \<or> (\<exists>aggs. client (chunk_request ticker timespan multiplier (start_date, end_date))
                       = Inr aggs
                   \<and> build_rows (to_datetime env) aggs = Inl e)) \<longrightarrow>
      get_historical_data env ticker start_date end_date timespan multiplier =
        (Inr [], [Print (Requesting ticker start_date end_date),
                  ListAggs (chunk_request ticker timespan multiplier (start_date, end_date))]
                 @ error_report (str e)))
   \<and> requests (error_report s) = [] \<and> sleeps (error_report s) = []
   \<and> (fst (get_historical_data env ticker start_date end_date timespan multiplier) = Inl x \<longrightarrow>
        rest_client env (api_key env) = Inl x \<or> \<not> is_Exception x)"
proof (intro conjI impI)
  assume "rest_client env (api_key env) = Inr client \<and> is_Exception e
      \<and> (client (chunk_request ticker timespan multiplier (start_date, end_date)) = Inl e
          \<or> (\<exists>aggs. client (chunk_request ticker timespan multiplier (start_date, end_date))
                       = Inr aggs
                   \<and> build_rows (to_datetime env) aggs = Inl e))"
  then show "get_historical_data env ticker start_date end_date timespan multiplier =
        (Inr [], [Print (Requesting ticker start_date end_date),
                  ListAggs (chunk_request ticker timespan multiplier (start_date, end_date))]
                 @ error_report (str e))"
    by (intro get_historical_data_caught) blast+
next
  show "requests (error_report s) = []" by (rule requests_error_report)
  show "sleeps (error_report s) = []" by (rule sleeps_error_report)
next
  assume "fst (get_historical_data env ticker start_date end_date timespan multiplier) = Inl x"
  then show "rest_client env (api_key env) = Inl x \<or> \<not> is_Exception x"
    by (rule get_historical_data_raised)
qed

text \<open>A client that raises an error containing \<open>NOT_AUTHORIZED\<close>, with and without an
  API key.\<close>

theorem provider_error_gives_empty_frame_witness:
  "rest_client (sample_env unauthorized_first_client) (api_key (sample_env unauthorized_first_client))
     = Inr unauthorized_first_client
   \<and> is_Exception (Exception ''NOT_AUTHORIZED: upgrade your plan'')
   \<and> unauthorized_first_client (chunk_request ''AAPL'' ''minute'' 1 (ymd 2024 1 1, ymd 2024 1 8))
     = Inl (Exception ''NOT_AUTHORIZED: upgrade your plan'')
   \<and> get_historical_data (sample_env unauthorized_first_client) ''AAPL'' (ymd 2024 1 1)
       (ymd 2024 1 8) ''minute'' 1 =
       (Inr [], [Print (Requesting ''AAPL'' (ymd 2024 1 1) (ymd 2024 1 8)),
                 ListAggs (chunk_request ''AAPL'' ''minute'' 1 (ymd 2024 1 1, ymd 2024 1 8)),
                 Print (ErrorFetching ''NOT_AUTHORIZED: upgrade your plan''),
                 Print NotAuthorizedHelp])
   \<and> fst (get_historical_data (no_key_env unauthorized_first_client) ''AAPL'' (ymd 2024 1 1)
        (ymd 2024 1 8) ''minute'' 1)
       = Inl (Exception ''Must specify env var POLYGON_API_KEY or pass api_key in constructor'')
   \<and> rest_client (no_key_env unauthorized_first_client)
        (api_key (no_key_env unauthorized_first_client))
       = Inl (Exception ''Must specify env var POLYGON_API_KEY or pass api_key in constructor'')"
proof -
  let ?E = "sample_env unauthorized_first_client"
  let ?N = "no_key_env unauthorized_first_client"
  have c: "rest_client ?E (api_key ?E) = Inr unauthorized_first_client"
    by (simp add: sample_env_def polygon_rest_client_def)
  have r: "unauthorized_first_client (chunk_request ''AAPL'' ''minute'' 1 (ymd 2024 1 1, ymd 2024 1 8))
     = Inl (Exception ''NOT_AUTHORIZED: upgrade your plan'')"
    by (simp add: unauthorized_first_client_def chunk_request_def ymd_eval)
  have er: "error_report ''NOT_AUTHORIZED: upgrade your plan'' =
          [Print (ErrorFetching ''NOT_AUTHORIZED: upgrade your plan''), Print NotAuthorizedHelp]"
    by (simp add: error_report_def)
  note t = provider_error_gives_empty_frame[where env = ?E and client = unauthorized_first_client
      and ticker = "''AAPL''" and timespan = "''minute''" and multiplier = 1
      and start_date = "ymd 2024 1 1" and end_date = "ymd 2024 1 8"
      and e = "Exception ''NOT_AUTHORIZED: upgrade your plan''"]
  have 1: "get_historical_data ?E ''AAPL'' (ymd 2024 1 1) (ymd 2024 1 8) ''minute'' 1 =
       (Inr [], [Print (Requesting ''AAPL'' (ymd 2024 1 1) (ymd 2024 1 8)),
                 ListAggs (chunk_request ''AAPL'' ''minute'' 1 (ymd 2024 1 1, ymd 2024 1 8)),
                 Print (ErrorFetching ''NOT_AUTHORIZED: upgrade your plan''),
                 Print NotAuthorizedHelp])"
    using t c r er by simp
  have n: "fst (get_historical_data ?N ''AAPL'' (ymd 2024 1 1) (ymd 2024 1 8) ''minute'' 1)
       = Inl (Exception ''Must specify env var POLYGON_API_KEY or pass api_key in constructor'')"
    by (simp add: get_historical_data_def no_key_env_def polygon_rest_client_def)
  from provider_error_gives_empty_frame[where env = ?N and ticker = "''AAPL''"
      and timespan = "''minute''" and multiplier = 1
      and start_date = "ymd 2024 1 1" and end_date = "ymd 2024 1 8"
      and x = "Exception ''Must specify env var POLYGON_API_KEY or pass api_key in constructor''"] n
  have 2: "rest_client ?N (api_key ?N)
       = Inl (Exception ''Must specify env var POLYGON_API_KEY or pass api_key in constructor'')"
    by simp
  from c r 1 n 2 show ?thesis by simp
qed

end
